theory Spec2Isabelle
  imports Complex_Main "HOL-Library.Sublist"
begin

section \<open>Burner: the commitment and exam lifecycle\<close>

text \<open>
  A shallow embedding of the services and server actions of the Burner application
  (\<^verbatim>\<open>src/features/burner\<close>): the stake resolver, the exam generator, the exam
  grader and the server actions that drive them.

  Conventions of the embedding.
  \<^item> A JavaScript string is a \<^typ>\<open>string\<close>; every character stands for one code unit
    below 256, so \<^verbatim>\<open>length\<close> is \<^const>\<open>length\<close>.
  \<^item> A timestamp (an ISO string in the database, a \<^verbatim>\<open>Date\<close> in the code) is the
    number of milliseconds since the epoch, an \<^typ>\<open>int\<close>; the clock read by
    \<^verbatim>\<open>new Date()\<close> is a parameter \<open>now\<close>.
  \<^item> A thrown exception is the \<open>Inl\<close> of a sum; the server actions catch everything
    and return a result record.
  \<^item> A Supabase table is the list of its rows. Queries filter it, \<^verbatim>\<open>.single()\<close>
    succeeds on exactly one row. The store itself is reliable: a query fails only when
    the rows it asks for are not there.
  \<^item> The observability calls (traces, spans, metrics) never influence a result and
    are left out, with the opaque trace and span identifiers they produce.
\<close>

subsection \<open>Strings\<close>

text \<open>The white space that \<^verbatim>\<open>String.prototype.trim\<close> strips, among the code units below 256.\<close>

definition is_space :: "char \<Rightarrow> bool" where
  "is_space c = (c = CHR 0x20 \<or> c = CHR 0x09 \<or> c = CHR 0x0A \<or> c = CHR 0x0B
     \<or> c = CHR 0x0C \<or> c = CHR 0x0D \<or> c = CHR 0xA0)"

definition trim :: "string \<Rightarrow> string" where
  "trim s = rev (dropWhile is_space (rev (dropWhile is_space s)))"

text \<open>\<^verbatim>\<open>s.includes(sub)\<close>.\<close>

fun includes_str :: "string \<Rightarrow> string \<Rightarrow> bool" where
  "includes_str [] sub = (sub = [])"
| "includes_str (c # cs) sub = (prefix sub (c # cs) \<or> includes_str cs sub)"

text \<open>\<^verbatim>\<open>parts.join(sep)\<close>.\<close>

fun join_str :: "string \<Rightarrow> string list \<Rightarrow> string" where
  "join_str sep [] = []"
| "join_str sep [x] = x"
| "join_str sep (x # y # ys) = x @ sep @ join_str sep (y # ys)"

subsection \<open>Database rows (types/database.ts)\<close>

datatype CommitmentStatus = active | completed | failed | expired

datatype StakeStatus = at_risk | saved | burned

datatype ExamStatus = pending | in_progress | submitted | graded | grading_failed

datatype QuestionType = multiple_choice | short_answer | application

datatype QuestionDifficulty = intermediate | advanced

record Commitment =
  c_id :: string
  c_user_id :: string
  c_topic :: string
  c_stake_amount :: int
  c_duration_days :: int
  c_deadline :: int
  c_status :: CommitmentStatus
  c_stake_status :: StakeStatus
  c_retry_used :: bool

text \<open>
  \<^verbatim>\<open>.eq(...).single()\<close>: the one row that satisfies the filter; an error (here
  \<open>None\<close>) when no row or more than one row does.
\<close>

definition select_single :: "('r \<Rightarrow> bool) \<Rightarrow> 'r list \<Rightarrow> 'r option" where
  "select_single p rows = (case filter p rows of [r] \<Rightarrow> Some r | _ \<Rightarrow> None)"

text \<open>\<^verbatim>\<open>.update(data).eq(...)\<close>: every row that satisfies the filter is updated.\<close>

definition update_where :: "('r \<Rightarrow> bool) \<Rightarrow> ('r \<Rightarrow> 'r) \<Rightarrow> 'r list \<Rightarrow> 'r list" where
  "update_where p f rows = map (\<lambda>r. if p r then f r else r) rows"

text \<open>\<^verbatim>\<open>.update(data).eq(...).select().single()\<close>: the update, and the one updated row.\<close>

definition update_single :: "('r \<Rightarrow> bool) \<Rightarrow> ('r \<Rightarrow> 'r) \<Rightarrow> 'r list \<Rightarrow> 'r option \<times> 'r list" where
  "update_single p f rows =
     ((case filter p rows of [r] \<Rightarrow> Some (f r) | _ \<Rightarrow> None), update_where p f rows)"

subsection \<open>Stake resolution (services/stake-resolution.ts)\<close>

datatype StakeAction = action_saved | action_burned | action_retry_allowed | action_no_change

record StakeResolutionResult =
  r_commitment :: Commitment
  r_previousStatus :: CommitmentStatus
  r_previousStakeStatus :: StakeStatus
  r_action :: StakeAction
  r_message :: string

datatype StakeError = CommitmentNotFound | FailedToUpdateCommitment

text \<open>
  The decision of \<^verbatim>\<open>resolveStake\<close> (lines 53 to 82): the new status, stake status
  and retry flag, the action and the message, in the order of the source's
  \<^verbatim>\<open>if / else if\<close> chain.
\<close>

definition resolveDecision ::
  "Commitment \<Rightarrow> bool \<Rightarrow> bool \<Rightarrow> CommitmentStatus \<times> StakeStatus \<times> bool \<times> StakeAction \<times> string" where
  "resolveDecision commitment deadlinePassed passed =
     (if deadlinePassed \<and> c_status commitment = active then
        (expired, burned, c_retry_used commitment, action_burned,
         ''Deadline passed. Stake has been burned.'')
      else if passed then
        (completed, saved, c_retry_used commitment, action_saved,
         ''Congratulations! You passed and saved your stake.'')
      else if \<not> c_retry_used commitment then
        (c_status commitment, c_stake_status commitment, True, action_retry_allowed,
         ''You did not pass. You have one retry remaining.'')
      else
        (failed, burned, c_retry_used commitment, action_burned,
         ''You did not pass after retry. Stake has been burned.''))"

text \<open>
  \<^verbatim>\<open>resolveStake(commitmentId, passed)\<close> on the commitments table, at the time \<open>now\<close>.
  The row is read, the decision is taken, and the row is written only when one of
  the three columns changes.
\<close>

definition resolveStake ::
  "int \<Rightarrow> string \<Rightarrow> bool \<Rightarrow> Commitment list \<Rightarrow> (StakeError + StakeResolutionResult) \<times> Commitment list" where
  "resolveStake now commitmentId passed commitments =
     (case select_single (\<lambda>c. c_id c = commitmentId) commitments of
        None \<Rightarrow> (Inl CommitmentNotFound, commitments)
      | Some commitment \<Rightarrow>
          (case resolveDecision commitment (now > c_deadline commitment) passed of
             (newStatus, newStakeStatus, newRetryUsed, act, message) \<Rightarrow>
               if (newStatus, newStakeStatus, newRetryUsed)
                    \<noteq> (c_status commitment, c_stake_status commitment, c_retry_used commitment)
               then
                 (case update_single (\<lambda>c. c_id c = commitmentId)
                         (\<lambda>c. c\<lparr>c_status := newStatus, c_stake_status := newStakeStatus,
                                c_retry_used := newRetryUsed\<rparr>) commitments of
                    (None, commitments') \<Rightarrow> (Inl FailedToUpdateCommitment, commitments')
                  | (Some updated, commitments') \<Rightarrow>
                      (Inr \<lparr>r_commitment = updated,
                            r_previousStatus = c_status commitment,
                            r_previousStakeStatus = c_stake_status commitment,
                            r_action = act, r_message = message\<rparr>, commitments'))
               else
                 (Inr \<lparr>r_commitment = commitment,
                       r_previousStatus = c_status commitment,
                       r_previousStakeStatus = c_stake_status commitment,
                       r_action = act, r_message = message\<rparr>, commitments)))"

subsection \<open>Collaborators\<close>

text \<open>
  A parsed JSON value. An object is the list of its own properties (\<^verbatim>\<open>JSON.parse\<close>
  yields every key once); \<^const>\<open>map_of\<close> reads a property, \<open>None\<close> standing for
  \<^verbatim>\<open>undefined\<close>. A number is a finite double, hence a rational.
\<close>

datatype json = JNull | JBool bool | JNum rat | JStr string | JArr "json list"
  | JObj "(string \<times> json) list"

text \<open>
  One request to the completion API: it throws (a time-out, a rate limit, any transport
  error, with that error's message), or returns a completion whose first choice may
  carry a content.
\<close>

datatype llm_outcome = Throws string | Completion "string option"

text \<open>
  What the code takes from outside: the outcome of the \<open>k\<close>-th request to the language
  model, \<^verbatim>\<open>JSON.parse\<close> (\<open>Inl\<close> the message of its SyntaxError), the message Zod
  prints for a value it rejects, the \<open>k\<close>-th identifier \<^verbatim>\<open>uuidv4()\<close> returns and the
  \<open>k\<close>-th primary key the database generates.
\<close>

record runtime =
  rt_llm :: "nat \<Rightarrow> llm_outcome"
  rt_json_parse :: "string \<Rightarrow> string + json"
  rt_zod_message :: "json \<Rightarrow> string"
  rt_uuidv4 :: "nat \<Rightarrow> string"
  rt_db_id :: "nat \<Rightarrow> string"

text \<open>
  The state the services change besides the database: the API keys read from the
  environment with the rotation index of each service's key manager, the number of
  requests sent to the language model, the pauses taken (milliseconds, in order) and
  the number of identifiers drawn from \<^verbatim>\<open>uuidv4()\<close>.
\<close>

record world =
  api_keys :: "string list"
  generator_key_index :: nat
  grader_key_index :: nat
  llm_calls :: nat
  delays :: "nat list"
  uuid_calls :: nat

text \<open>\<^verbatim>\<open>await delay(ms)\<close>.\<close>

definition delay :: "nat \<Rightarrow> world \<Rightarrow> world" where
  "delay ms w = w\<lparr>delays := delays w @ [ms]\<rparr>"

text \<open>\<^verbatim>\<open>cerebras.chat.completions.create(...)\<close>.\<close>

definition llm_request :: "runtime \<Rightarrow> world \<Rightarrow> llm_outcome \<times> world" where
  "llm_request rt w = (rt_llm rt (llm_calls w), w\<lparr>llm_calls := llm_calls w + 1\<rparr>)"

subsection \<open>Errors\<close>

text \<open>
  The tags of \<^verbatim>\<open>ExamGenerationError\<close> and \<^verbatim>\<open>GradingError\<close> (one type for both
  unions), and the exceptions the services throw.
\<close>

datatype ErrorType = INVALID_RESPONSE | INVALID_SCORE | TIMEOUT | RATE_LIMITED
  | MAX_RETRIES_EXCEEDED | API_ERROR

record ServiceError =
  err_type :: ErrorType
  err_message :: string

datatype exn = Error string
  | ExamGenerationException ServiceError nat
  | GradingException ServiceError nat

definition exn_message :: "exn \<Rightarrow> string" where
  "exn_message e = (case e of Error m \<Rightarrow> m
     | ExamGenerationException err attempts \<Rightarrow> err_message err
     | GradingException err attempts \<Rightarrow> err_message err)"

text \<open>The decimal digits of a number, as a template literal prints it.\<close>

definition digit_char :: "nat \<Rightarrow> char" where
  "digit_char d = ''0123456789'' ! d"

function string_of_nat :: "nat \<Rightarrow> string" where
  "string_of_nat n =
     (if n < 10 then [digit_char n]
      else string_of_nat (n div 10) @ [digit_char (n mod 10)])"
  by pat_completeness auto
termination
  by (relation "measure (\<lambda>n. n)") auto

subsection \<open>Retry configuration and key rotation\<close>

definition maxRetries :: nat where
  "maxRetries = 3"

definition backoffMs :: "nat list" where
  "backoffMs = [1000, 2000, 4000]"

definition no_keys_message :: string where
  "no_keys_message = ''No Cerebras API keys configured. Set CEREBRAS_API_KEYS or CEREBRAS_API_KEY environment variable.''"

text \<open>\<^verbatim>\<open>keyManager.getNextKey()\<close> of the generator; \<open>None\<close> is \<^verbatim>\<open>undefined\<close>.\<close>

definition getNextKey_generator :: "world \<Rightarrow> (exn + string option) \<times> world" where
  "getNextKey_generator w =
     (if length (api_keys w) = 0 then (Inl (Error no_keys_message), w)
      else
        ((if generator_key_index w < length (api_keys w)
          then Inr (Some (api_keys w ! generator_key_index w)) else Inr None),
         w\<lparr>generator_key_index := (generator_key_index w + 1) mod length (api_keys w)\<rparr>))"

text \<open>\<^verbatim>\<open>keyManager.getNextKey()\<close> of the grader.\<close>

definition getNextKey_grader :: "world \<Rightarrow> (exn + string option) \<times> world" where
  "getNextKey_grader w =
     (if length (api_keys w) = 0 then (Inl (Error no_keys_message), w)
      else
        ((if grader_key_index w < length (api_keys w)
          then Inr (Some (api_keys w ! grader_key_index w)) else Inr None),
         w\<lparr>grader_key_index := (grader_key_index w + 1) mod length (api_keys w)\<rparr>))"

subsection \<open>Reading the model's answer\<close>

text \<open>
  The match of \<^verbatim>\<open>/```(?:json)?\s*([\s\S]*?)```/\<close>: the text after the first fence and
  an optional \<^verbatim>\<open>json\<close>, up to the next fence. The fence is three characters \<open>0x60\<close>.
\<close>

definition fence :: string where
  "fence = [CHR 0x60, CHR 0x60, CHR 0x60]"

fun after_fence :: "string \<Rightarrow> string option" where
  "after_fence [] = None"
| "after_fence (c # cs) =
     (if prefix fence (c # cs) then Some (drop 3 (c # cs)) else after_fence cs)"

fun before_fence :: "string \<Rightarrow> string option" where
  "before_fence [] = None"
| "before_fence (c # cs) =
     (if prefix fence (c # cs) then Some [] else map_option ((#) c) (before_fence cs))"

definition extractJson :: "string \<Rightarrow> string" where
  "extractJson rawResponse =
     (let jsonStr = trim rawResponse in
      case after_fence jsonStr of
        None \<Rightarrow> jsonStr
      | Some rest \<Rightarrow>
          (case before_fence
                  (dropWhile is_space (if prefix ''json'' rest then drop 4 rest else rest)) of
             None \<Rightarrow> jsonStr
           | Some captured \<Rightarrow> trim captured))"

subsection \<open>Exam generation (services/exam-generator.ts)\<close>

record ExamQuestion =
  q_id :: string
  q_type :: QuestionType
  q_question :: string
  q_options :: "string list option"
  q_correct_answer :: "string option"
  q_difficulty :: QuestionDifficulty

text \<open>
  The Zod schemas. \<open>None\<close> is a failed \<^verbatim>\<open>safeParse\<close>; an optional property is
  \<open>Some None\<close> when it is absent. Properties the schema does not name are dropped.
\<close>

definition z_string :: "json option \<Rightarrow> string option" where
  "z_string v = (case v of Some (JStr s) \<Rightarrow> Some s | _ \<Rightarrow> None)"

definition z_optional_string :: "json option \<Rightarrow> string option option" where
  "z_optional_string v =
     (case v of None \<Rightarrow> Some None | Some (JStr s) \<Rightarrow> Some (Some s) | _ \<Rightarrow> None)"

definition z_optional_string_array :: "json option \<Rightarrow> string list option option" where
  "z_optional_string_array v =
     (case v of
        None \<Rightarrow> Some None
      | Some (JArr items) \<Rightarrow> map_option Some (those (map (\<lambda>x. z_string (Some x)) items))
      | _ \<Rightarrow> None)"

definition z_question_type :: "json option \<Rightarrow> QuestionType option" where
  "z_question_type v =
     (case v of
        Some (JStr s) \<Rightarrow>
          (if s = ''multiple_choice'' then Some multiple_choice
           else if s = ''short_answer'' then Some short_answer
           else if s = ''application'' then Some application
           else None)
      | _ \<Rightarrow> None)"

definition z_difficulty :: "json option \<Rightarrow> QuestionDifficulty option" where
  "z_difficulty v =
     (case v of
        Some (JStr s) \<Rightarrow>
          (if s = ''intermediate'' then Some intermediate
           else if s = ''advanced'' then Some advanced
           else None)
      | _ \<Rightarrow> None)"

definition llmQuestionSchema :: "json \<Rightarrow> ExamQuestion option" where
  "llmQuestionSchema v =
     (case v of
        JObj props \<Rightarrow>
          (case (z_string (map_of props ''id''),
                 z_question_type (map_of props ''type''),
                 z_string (map_of props ''question''),
                 z_optional_string_array (map_of props ''options''),
                 z_optional_string (map_of props ''correct_answer''),
                 z_difficulty (map_of props ''difficulty'')) of
             (Some i, Some t, Some q, Some opts, Some ca, Some d) \<Rightarrow>
               (if 1 \<le> length q
                then Some \<lparr>q_id = i, q_type = t, q_question = q, q_options = opts,
                           q_correct_answer = ca, q_difficulty = d\<rparr>
                else None)
           | _ \<Rightarrow> None)
      | _ \<Rightarrow> None)"

definition llmResponseSchema :: "json \<Rightarrow> ExamQuestion list option" where
  "llmResponseSchema v =
     (case v of
        JObj props \<Rightarrow>
          (case map_of props ''questions'' of
             Some (JArr items) \<Rightarrow>
               (case those (map llmQuestionSchema items) of
                  Some questions \<Rightarrow>
                    (if 5 \<le> length questions \<and> length questions \<le> 10
                     then Some questions else None)
                | None \<Rightarrow> None)
           | _ \<Rightarrow> None)
      | _ \<Rightarrow> None)"

text \<open>
  \<^verbatim>\<open>isValidUUID\<close>: the regular expression, case-insensitive, one character class per
  position.
\<close>

datatype uuid_class = Hex | Dash | Version | Variant

definition is_hex :: "char \<Rightarrow> bool" where
  "is_hex c = (c \<in> set ''0123456789abcdefABCDEF'')"

fun in_uuid_class :: "uuid_class \<Rightarrow> char \<Rightarrow> bool" where
  "in_uuid_class Hex c = is_hex c"
| "in_uuid_class Dash c = (c = CHR ''-'')"
| "in_uuid_class Version c = (c \<in> set ''12345'')"
| "in_uuid_class Variant c = (c \<in> set ''89abAB'')"

definition uuid_pattern :: "uuid_class list" where
  "uuid_pattern = replicate 8 Hex @ [Dash] @ replicate 4 Hex @ [Dash, Version]
     @ replicate 3 Hex @ [Dash, Variant] @ replicate 3 Hex @ [Dash] @ replicate 12 Hex"

definition isValidUUID :: "string \<Rightarrow> bool" where
  "isValidUUID str = list_all2 in_uuid_class uuid_pattern str"

definition type_name :: "QuestionType \<Rightarrow> string" where
  "type_name t = (case t of multiple_choice \<Rightarrow> ''multiple_choice''
     | short_answer \<Rightarrow> ''short_answer'' | application \<Rightarrow> ''application'')"

definition requiredTypes :: "QuestionType list" where
  "requiredTypes = [multiple_choice, short_answer, application]"

definition missingTypes :: "ExamQuestion list \<Rightarrow> QuestionType list" where
  "missingTypes questions = filter (\<lambda>t. t \<notin> set (map q_type questions)) requiredTypes"

definition quoted :: "string \<Rightarrow> string" where
  "quoted s = [CHR 0x22] @ s @ [CHR 0x22]"

text \<open>
  The loop over the questions (lines 597 to 606): the first multiple choice question
  without four options or without a correct answer throws.
\<close>

fun checkMultipleChoice :: "ExamQuestion list \<Rightarrow> exn option" where
  "checkMultipleChoice [] = None"
| "checkMultipleChoice (q # qs) =
     (if q_type q = multiple_choice then
        (case q_options q of
           None \<Rightarrow>
             Some (Error (''Multiple choice question '' @ quoted (q_id q)
                          @ '' must have exactly 4 options''))
         | Some opts \<Rightarrow>
             if length opts \<noteq> 4 then
               Some (Error (''Multiple choice question '' @ quoted (q_id q)
                            @ '' must have exactly 4 options''))
             else
               (case q_correct_answer q of
                  None \<Rightarrow>
                    Some (Error (''Multiple choice question '' @ quoted (q_id q)
                                 @ '' must have a correct_answer''))
                | Some ca \<Rightarrow>
                    if ca = [] then
                      Some (Error (''Multiple choice question '' @ quoted (q_id q)
                                   @ '' must have a correct_answer''))
                    else checkMultipleChoice qs))
      else checkMultipleChoice qs)"

text \<open>
  The final \<^verbatim>\<open>questions.map\<close>: a question keeps its identifier when it is a UUID and
  gets a fresh one otherwise; options and correct answer are kept for multiple choice
  only.
\<close>

fun transformQuestions ::
  "runtime \<Rightarrow> ExamQuestion list \<Rightarrow> world \<Rightarrow> ExamQuestion list \<times> world" where
  "transformQuestions rt [] w = ([], w)"
| "transformQuestions rt (q # qs) w =
     (case (if isValidUUID (q_id q) then (q_id q, w)
            else (rt_uuidv4 rt (uuid_calls w), w\<lparr>uuid_calls := uuid_calls w + 1\<rparr>)) of
        (i, w1) \<Rightarrow>
          (case transformQuestions rt qs w1 of
             (rest, w2) \<Rightarrow>
               (\<lparr>q_id = i, q_type = q_type q, q_question = q_question q,
                 q_options = (if q_type q = multiple_choice then q_options q else None),
                 q_correct_answer =
                   (if q_type q = multiple_choice then q_correct_answer q else None),
                 q_difficulty = q_difficulty q\<rparr> # rest, w2)))"

definition validateAndTransformResponse ::
  "runtime \<Rightarrow> string \<Rightarrow> nat \<Rightarrow> world \<Rightarrow> (exn + ExamQuestion list) \<times> world" where
  "validateAndTransformResponse rt rawResponse expectedCount w =
     (case rt_json_parse rt (extractJson rawResponse) of
        Inl msg \<Rightarrow> (Inl (Error (''Failed to parse LLM response as JSON: '' @ msg)), w)
      | Inr parsed \<Rightarrow>
          (case llmResponseSchema parsed of
             None \<Rightarrow>
               (Inl (Error (''Invalid exam structure: '' @ rt_zod_message rt parsed)), w)
           | Some questions \<Rightarrow>
               if length questions < 5 \<or> 10 < length questions then
                 (Inl (Error (''Expected 5-10 questions, got ''
                              @ string_of_nat (length questions))), w)
               else if 0 < length (missingTypes questions) then
                 (Inl (Error (''Missing required question types: ''
                              @ join_str '', '' (map type_name (missingTypes questions)))), w)
               else
                 (case checkMultipleChoice questions of
                    Some e \<Rightarrow> (Inl e, w)
                  | None \<Rightarrow>
                      (case transformQuestions rt questions w of
                         (result, w') \<Rightarrow> (Inr result, w')))))"

text \<open>\<^verbatim>\<open>categorizeError\<close> of the generator.\<close>

definition categorizeError :: "exn \<Rightarrow> ServiceError" where
  "categorizeError error =
     (case error of
        ExamGenerationException err attempts \<Rightarrow> err
      | _ \<Rightarrow>
          (let message = exn_message error in
           if includes_str message ''rate limit'' \<or> includes_str message ''429'' then
             \<lparr>err_type = RATE_LIMITED, err_message = message\<rparr>
           else if includes_str message ''timeout'' \<or> includes_str message ''ETIMEDOUT'' then
             \<lparr>err_type = TIMEOUT, err_message = message\<rparr>
           else if includes_str message ''parse'' \<or> includes_str message ''Invalid''
                   \<or> includes_str message ''JSON'' then
             \<lparr>err_type = INVALID_RESPONSE, err_message = message\<rparr>
           else \<lparr>err_type = API_ERROR, err_message = message\<rparr>))"

text \<open>
  \<^verbatim>\<open>attemptGeneration\<close>: a key, one request, the content of the first choice, and its
  validation. The prompt is not modelled: the outcome of the request is arbitrary.
\<close>

definition attemptGeneration ::
  "runtime \<Rightarrow> string \<Rightarrow> nat \<Rightarrow> nat \<Rightarrow> world \<Rightarrow> (exn + ExamQuestion list) \<times> world" where
  "attemptGeneration rt topic questionCount attempt w =
     (case getNextKey_generator w of
        (Inl e, w1) \<Rightarrow> (Inl e, w1)
      | (Inr apiKey, w1) \<Rightarrow>
          (case llm_request rt w1 of
             (Throws msg, w2) \<Rightarrow> (Inl (Error msg), w2)
           | (Completion None, w2) \<Rightarrow> (Inl (Error ''Empty response from LLM''), w2)
           | (Completion (Some content), w2) \<Rightarrow>
               if content = [] then (Inl (Error ''Empty response from LLM''), w2)
               else validateAndTransformResponse rt content questionCount w2))"

text \<open>\<^verbatim>\<open>lastError?.message || 'Unknown'\<close>.\<close>

definition lastErrorMessage :: "ServiceError option \<Rightarrow> string" where
  "lastErrorMessage lastError =
     (case lastError of
        None \<Rightarrow> ''Unknown''
      | Some err \<Rightarrow> if err_message err = [] then ''Unknown'' else err_message err)"

text \<open>
  \<^verbatim>\<open>generateExamWithRetry\<close>: the \<^verbatim>\<open>for\<close> loop from the attempt \<open>attempt\<close> on, with the
  last error so far.
\<close>

function generateExamWithRetry_loop ::
  "runtime \<Rightarrow> string \<Rightarrow> nat \<Rightarrow> nat \<Rightarrow> ServiceError option \<Rightarrow> world
     \<Rightarrow> (exn + ExamQuestion list) \<times> world" where
  "generateExamWithRetry_loop rt topic questionCount attempt lastError w =
     (if attempt \<le> maxRetries then
        (case attemptGeneration rt topic questionCount attempt w of
           (Inr questions, w1) \<Rightarrow> (Inr questions, w1)
         | (Inl error, w1) \<Rightarrow>
             generateExamWithRetry_loop rt topic questionCount (attempt + 1)
               (Some (categorizeError error))
               (if attempt < maxRetries then delay (backoffMs ! (attempt - 1)) w1 else w1))
      else
        (Inl (ExamGenerationException
                \<lparr>err_type = MAX_RETRIES_EXCEEDED,
                 err_message = ''Failed to generate exam after '' @ string_of_nat maxRetries
                   @ '' attempts. Last error: '' @ lastErrorMessage lastError\<rparr>
                maxRetries), w))"
  by pat_completeness auto
termination
  by (relation "measure (\<lambda>(rt, topic, questionCount, attempt, lastError, w). maxRetries + 1 - attempt)")
     auto

definition generateExamWithRetry ::
  "runtime \<Rightarrow> string \<Rightarrow> nat \<Rightarrow> world \<Rightarrow> (exn + ExamQuestion list) \<times> world" where
  "generateExamWithRetry rt topic questionCount w =
     generateExamWithRetry_loop rt topic questionCount 1 None w"

text \<open>\<^verbatim>\<open>generateExam(topic, questionCount)\<close> of the service.\<close>

definition generateExam ::
  "runtime \<Rightarrow> string \<Rightarrow> nat \<Rightarrow> world \<Rightarrow> (exn + ExamQuestion list) \<times> world" where
  "generateExam rt topic questionCount w =
     (if topic = [] \<or> length (trim topic) = 0 then
        (Inl (ExamGenerationException
                \<lparr>err_type = INVALID_RESPONSE, err_message = ''Topic cannot be empty''\<rparr> 0), w)
      else if questionCount < 5 \<or> 10 < questionCount then
        (Inl (ExamGenerationException
                \<lparr>err_type = INVALID_RESPONSE,
                 err_message = ''Question count must be between 5 and 10''\<rparr> 0), w)
      else generateExamWithRetry rt topic questionCount w)"

subsection \<open>The database\<close>

record Exam =
  e_id :: string
  e_commitment_id :: string
  e_questions :: "ExamQuestion list"
  e_status :: ExamStatus
  e_started_at :: "int option"
  e_submitted_at :: "int option"
  e_overall_score :: "int option"
  e_passed :: "bool option"

record ExamAnswer =
  a_id :: string
  a_exam_id :: string
  a_question_id :: string
  a_user_answer :: string
  a_score :: "int option"
  a_feedback :: "string option"
  a_graded_at :: "int option"

text \<open>The three tables, and the number of primary keys the database has generated.\<close>

record database =
  commitments :: "Commitment list"
  exams :: "Exam list"
  exam_answers :: "ExamAnswer list"
  id_seq :: nat

text \<open>
  \<^verbatim>\<open>.from('exams').select('*, commitments!inner(user_id)').eq('id', examId).single()\<close>:
  the exam and the owner of its commitment; no row when either is missing.
\<close>

definition select_exam_with_owner :: "string \<Rightarrow> database \<Rightarrow> (Exam \<times> string) option" where
  "select_exam_with_owner examId db =
     (case select_single (\<lambda>e. e_id e = examId) (exams db) of
        None \<Rightarrow> None
      | Some exam \<Rightarrow>
          (case select_single (\<lambda>c. c_id c = e_commitment_id exam) (commitments db) of
             None \<Rightarrow> None
           | Some commitment \<Rightarrow> Some (exam, c_user_id commitment)))"

text \<open>
  \<^verbatim>\<open>.from('exams').insert({commitment_id, questions, status}).select().single()\<close>: the
  other columns take their defaults.
\<close>

definition insert_exam ::
  "runtime \<Rightarrow> string \<Rightarrow> ExamQuestion list \<Rightarrow> ExamStatus \<Rightarrow> database \<Rightarrow> Exam option \<times> database" where
  "insert_exam rt commitmentId questions st db =
     (let row = \<lparr>e_id = rt_db_id rt (id_seq db), e_commitment_id = commitmentId,
                  e_questions = questions, e_status = st, e_started_at = None,
                  e_submitted_at = None, e_overall_score = None, e_passed = None\<rparr>
      in (Some row, db\<lparr>exams := exams db @ [row], id_seq := id_seq db + 1\<rparr>))"

text \<open>\<^verbatim>\<open>.from('exam_answers').insert({exam_id, question_id, user_answer}).select().single()\<close>.\<close>

definition insert_answer ::
  "runtime \<Rightarrow> string \<Rightarrow> string \<Rightarrow> string \<Rightarrow> database \<Rightarrow> ExamAnswer option \<times> database" where
  "insert_answer rt examId questionId userAnswer db =
     (let row = \<lparr>a_id = rt_db_id rt (id_seq db), a_exam_id = examId,
                  a_question_id = questionId, a_user_answer = userAnswer, a_score = None,
                  a_feedback = None, a_graded_at = None\<rparr>
      in (Some row, db\<lparr>exam_answers := exam_answers db @ [row], id_seq := id_seq db + 1\<rparr>))"

subsection \<open>Server actions on exams (actions/exam-actions.ts)\<close>

record ValidationError =
  ve_field :: string
  ve_message :: string
  ve_code :: string

text \<open>\<^verbatim>\<open>{ success: true, data }\<close> or \<^verbatim>\<open>{ success: false, errors }\<close>.\<close>

datatype 'a ActionResult = Success 'a | Failure "ValidationError list"

definition failure :: "string \<Rightarrow> string \<Rightarrow> string \<Rightarrow> 'a ActionResult" where
  "failure fld msg cd = Failure [\<lparr>ve_field = fld, ve_message = msg, ve_code = cd\<rparr>]"

definition commitment_status_name :: "CommitmentStatus \<Rightarrow> string" where
  "commitment_status_name st = (case st of active \<Rightarrow> ''active'' | completed \<Rightarrow> ''completed''
     | failed \<Rightarrow> ''failed'' | expired \<Rightarrow> ''expired'')"

definition exam_status_name :: "ExamStatus \<Rightarrow> string" where
  "exam_status_name st = (case st of pending \<Rightarrow> ''pending'' | in_progress \<Rightarrow> ''in_progress''
     | submitted \<Rightarrow> ''submitted'' | graded \<Rightarrow> ''graded'' | grading_failed \<Rightarrow> ''grading_failed'')"

text \<open>
  \<^verbatim>\<open>generateExam(commitmentId)\<close>, the server action. \<open>userId\<close> is what \<^verbatim>\<open>auth()\<close>
  returns. An exception of the generator is caught and reported as a server error.
\<close>

definition generateExam_action ::
  "runtime \<Rightarrow> string option \<Rightarrow> string \<Rightarrow> int \<Rightarrow> database \<Rightarrow> world
     \<Rightarrow> Exam ActionResult \<times> database \<times> world" where
  "generateExam_action rt userId commitmentId now db w =
     (case userId of
        None \<Rightarrow> (failure ''auth'' ''You must be signed in'' ''unauthorized'', db, w)
      | Some uid \<Rightarrow>
          if uid = [] then (failure ''auth'' ''You must be signed in'' ''unauthorized'', db, w)
          else if commitmentId = [] then
            (failure ''commitmentId'' ''Commitment ID is required'' ''invalid_input'', db, w)
          else
            (case select_single (\<lambda>c. c_id c = commitmentId) (commitments db) of
               None \<Rightarrow> (failure ''commitmentId'' ''Commitment not found'' ''not_found'', db, w)
             | Some commitment \<Rightarrow>
                 if c_user_id commitment \<noteq> uid then
                   (failure ''auth'' ''Access denied'' ''forbidden'', db, w)
                 else if c_status commitment \<noteq> active then
                   (failure ''commitment''
                      (''Cannot generate exam for '' @ commitment_status_name (c_status commitment)
                       @ '' commitment'') ''invalid_status'', db, w)
                 else if c_deadline commitment < now then
                   (failure ''commitment'' ''Deadline has passed'' ''deadline_passed'', db, w)
                 else
                   (case generateExam rt (c_topic commitment) 7 w of
                      (Inl error, w') \<Rightarrow>
                        (failure ''server'' (exn_message error) ''server_error'', db, w')
                    | (Inr questions, w') \<Rightarrow>
                        (case insert_exam rt commitmentId questions pending db of
                           (None, db') \<Rightarrow>
                             (failure ''server'' ''Failed to create exam'' ''database_error'',
                              db', w')
                         | (Some exam, db') \<Rightarrow> (Success exam, db', w')))))"

text \<open>
  \<^verbatim>\<open>submitAnswer(examId, questionId, answer)\<close>. The existing answer of the pair is
  looked up with \<^verbatim>\<open>.single()\<close>: it is updated when there is exactly one, and a row is
  inserted otherwise.
\<close>

definition submitAnswer_action ::
  "runtime \<Rightarrow> string option \<Rightarrow> string \<Rightarrow> string \<Rightarrow> string \<Rightarrow> database
     \<Rightarrow> ExamAnswer ActionResult \<times> database" where
  "submitAnswer_action rt userId examId questionId answer db =
     (case userId of
        None \<Rightarrow> (failure ''auth'' ''You must be signed in'' ''unauthorized'', db)
      | Some uid \<Rightarrow>
          if uid = [] then (failure ''auth'' ''You must be signed in'' ''unauthorized'', db)
          else if trim answer = [] then
            (failure ''answer'' ''Answer cannot be empty'' ''invalid_input'', db)
          else
            (case select_exam_with_owner examId db of
               None \<Rightarrow> (failure ''examId'' ''Exam not found'' ''not_found'', db)
             | Some (exam, owner) \<Rightarrow>
                 if owner \<noteq> uid then (failure ''auth'' ''Access denied'' ''forbidden'', db)
                 else if e_status exam \<noteq> in_progress then
                   (failure ''exam'' ''Exam is not in progress'' ''invalid_status'', db)
                 else if \<not> list_ex (\<lambda>q. q_id q = questionId) (e_questions exam) then
                   (failure ''questionId'' ''Question not found'' ''not_found'', db)
                 else
                   (case select_single
                           (\<lambda>a. a_exam_id a = examId \<and> a_question_id a = questionId)
                           (exam_answers db) of
                      Some existingAnswer \<Rightarrow>
                        (case update_single (\<lambda>a. a_id a = a_id existingAnswer)
                                (\<lambda>a. a\<lparr>a_user_answer := trim answer\<rparr>) (exam_answers db) of
                           (None, answers') \<Rightarrow>
                             (failure ''server'' ''Failed to update answer'' ''database_error'',
                              db\<lparr>exam_answers := answers'\<rparr>)
                         | (Some updated, answers') \<Rightarrow>
                             (Success updated, db\<lparr>exam_answers := answers'\<rparr>))
                    | None \<Rightarrow>
                        (case insert_answer rt examId questionId (trim answer) db of
                           (None, db') \<Rightarrow>
                             (failure ''server'' ''Failed to submit answer'' ''database_error'',
                              db')
                         | (Some newAnswer, db') \<Rightarrow> (Success newAnswer, db')))))"

subsection \<open>Exam grading (services/exam-grader.ts)\<close>

definition PASS_THRESHOLD :: int where
  "PASS_THRESHOLD = 70"

record GradeResult =
  gr_score :: int
  gr_feedback :: string

record ExamGradeResult =
  overallScore :: int
  passed :: bool
  questionResults :: "GradeResult list"

text \<open>
  \<^verbatim>\<open>gradeResultSchema\<close>: an integer score from 0 to 100 and a feedback that is not
  empty.
\<close>

definition gradeResultSchema :: "json \<Rightarrow> GradeResult option" where
  "gradeResultSchema v =
     (case v of
        JObj props \<Rightarrow>
          (case (map_of props ''score'', z_string (map_of props ''feedback'')) of
             (Some (JNum x), Some f) \<Rightarrow>
               (if of_int \<lfloor>x\<rfloor> = x \<and> 0 \<le> x \<and> x \<le> 100 \<and> 1 \<le> length f
                then Some \<lparr>gr_score = \<lfloor>x\<rfloor>, gr_feedback = f\<rparr> else None)
           | _ \<Rightarrow> None)
      | _ \<Rightarrow> None)"

definition validateGradeResponse :: "runtime \<Rightarrow> string \<Rightarrow> exn + GradeResult" where
  "validateGradeResponse rt rawResponse =
     (case rt_json_parse rt (extractJson rawResponse) of
        Inl msg \<Rightarrow> Inl (Error (''Failed to parse grading response as JSON: '' @ msg))
      | Inr parsed \<Rightarrow>
          (case gradeResultSchema parsed of
             None \<Rightarrow> Inl (Error (''Invalid grading response: '' @ rt_zod_message rt parsed))
           | Some r \<Rightarrow> Inr r))"

text \<open>\<^verbatim>\<open>categorizeError\<close> of the grader.\<close>

definition categorizeGradingError :: "exn \<Rightarrow> ServiceError" where
  "categorizeGradingError error =
     (case error of
        GradingException err attempts \<Rightarrow> err
      | _ \<Rightarrow>
          (let message = exn_message error in
           if includes_str message ''rate limit'' \<or> includes_str message ''429'' then
             \<lparr>err_type = RATE_LIMITED, err_message = message\<rparr>
           else if includes_str message ''timeout'' \<or> includes_str message ''ETIMEDOUT'' then
             \<lparr>err_type = TIMEOUT, err_message = message\<rparr>
           else if includes_str message ''score'' \<or> includes_str message ''Invalid'' then
             \<lparr>err_type = INVALID_SCORE, err_message = message\<rparr>
           else \<lparr>err_type = API_ERROR, err_message = message\<rparr>))"

text \<open>\<^verbatim>\<open>attemptGrading\<close>: a key, one request, the content of the first choice, its validation.\<close>

definition attemptGrading ::
  "runtime \<Rightarrow> ExamQuestion \<Rightarrow> string \<Rightarrow> nat \<Rightarrow> world \<Rightarrow> (exn + GradeResult) \<times> world" where
  "attemptGrading rt question userAnswer attempt w =
     (case getNextKey_grader w of
        (Inl e, w1) \<Rightarrow> (Inl e, w1)
      | (Inr apiKey, w1) \<Rightarrow>
          (case llm_request rt w1 of
             (Throws msg, w2) \<Rightarrow> (Inl (Error msg), w2)
           | (Completion None, w2) \<Rightarrow> (Inl (Error ''Empty response from LLM''), w2)
           | (Completion (Some content), w2) \<Rightarrow>
               if content = [] then (Inl (Error ''Empty response from LLM''), w2)
               else (validateGradeResponse rt content, w2)))"

text \<open>\<^verbatim>\<open>gradeAnswerWithRetry\<close>: the \<^verbatim>\<open>for\<close> loop from the attempt \<open>attempt\<close> on.\<close>

function gradeAnswerWithRetry_loop ::
  "runtime \<Rightarrow> ExamQuestion \<Rightarrow> string \<Rightarrow> nat \<Rightarrow> ServiceError option \<Rightarrow> world
     \<Rightarrow> (exn + GradeResult) \<times> world" where
  "gradeAnswerWithRetry_loop rt question userAnswer attempt lastError w =
     (if attempt \<le> maxRetries then
        (case attemptGrading rt question userAnswer attempt w of
           (Inr result, w1) \<Rightarrow> (Inr result, w1)
         | (Inl error, w1) \<Rightarrow>
             gradeAnswerWithRetry_loop rt question userAnswer (attempt + 1)
               (Some (categorizeGradingError error))
               (if attempt < maxRetries then delay (backoffMs ! (attempt - 1)) w1 else w1))
      else
        (Inl (GradingException
                \<lparr>err_type = MAX_RETRIES_EXCEEDED,
                 err_message = ''Failed to grade answer after '' @ string_of_nat maxRetries
                   @ '' attempts. Last error: '' @ lastErrorMessage lastError\<rparr>
                maxRetries), w))"
  by pat_completeness auto
termination
  by (relation "measure (\<lambda>(rt, question, userAnswer, attempt, lastError, w). maxRetries + 1 - attempt)")
     auto

definition gradeAnswerWithRetry ::
  "runtime \<Rightarrow> ExamQuestion \<Rightarrow> string \<Rightarrow> world \<Rightarrow> (exn + GradeResult) \<times> world" where
  "gradeAnswerWithRetry rt question userAnswer w =
     gradeAnswerWithRetry_loop rt question userAnswer 1 None w"

definition no_answer :: GradeResult where
  "no_answer = \<lparr>gr_score = 0, gr_feedback = ''No answer provided.''\<rparr>"

text \<open>\<^verbatim>\<open>gradeAnswer(question, userAnswer)\<close>.\<close>

definition gradeAnswer ::
  "runtime \<Rightarrow> ExamQuestion \<Rightarrow> string \<Rightarrow> world \<Rightarrow> (exn + GradeResult) \<times> world" where
  "gradeAnswer rt question userAnswer w =
     (if q_question question = [] then
        (Inl (GradingException
                \<lparr>err_type = INVALID_SCORE, err_message = ''Question cannot be empty''\<rparr> 0), w)
      else if userAnswer = [] \<or> length (trim userAnswer) = 0 then (Inr no_answer, w)
      else gradeAnswerWithRetry rt question userAnswer w)"

text \<open>The map of the answers by question identifier: a later answer replaces an earlier one.\<close>

definition answerMap :: "ExamAnswer list \<Rightarrow> (string \<rightharpoonup> ExamAnswer)" where
  "answerMap answers = foldl (\<lambda>m answer. m(a_question_id answer \<mapsto> answer)) Map.empty answers"

text \<open>
  The body of the loop of \<^verbatim>\<open>gradeExamQuestions\<close> for one question (lines 517 to 538):
  \<^verbatim>\<open>answer?.user_answer || ''\<close>, then the empty answer or the grader.
\<close>

definition gradeQuestion ::
  "runtime \<Rightarrow> (string \<rightharpoonup> ExamAnswer) \<Rightarrow> ExamQuestion \<Rightarrow> world \<Rightarrow> (exn + GradeResult) \<times> world" where
  "gradeQuestion rt answers question w =
     (let userAnswer = (case answers (q_id question) of None \<Rightarrow> [] | Some answer \<Rightarrow> a_user_answer answer)
      in if userAnswer = [] \<or> length (trim userAnswer) = 0 then (Inr no_answer, w)
         else gradeAnswerWithRetry rt question userAnswer w)"

text \<open>The loop over the questions, with the results pushed so far; an exception ends it.\<close>

fun gradeQuestions ::
  "runtime \<Rightarrow> (string \<rightharpoonup> ExamAnswer) \<Rightarrow> ExamQuestion list \<Rightarrow> GradeResult list \<Rightarrow> world
     \<Rightarrow> (exn + GradeResult list) \<times> world" where
  "gradeQuestions rt answers [] results w = (Inr results, w)"
| "gradeQuestions rt answers (question # rest) results w =
     (case gradeQuestion rt answers question w of
        (Inl error, w1) \<Rightarrow> (Inl error, w1)
      | (Inr gradeResult, w1) \<Rightarrow> gradeQuestions rt answers rest (results @ [gradeResult]) w1)"

text \<open>
  \<^verbatim>\<open>Math.round\<close> rounds to the nearest integer, a half upwards. The quotient it is
  applied to is taken exactly: the scores are integers from 0 to 100, so the double
  \<^verbatim>\<open>totalScore / questionResults.length\<close> is a half-integer only when the exact
  quotient is, and both round to the same integer for every exam of fewer than
  \<open>10^13\<close> questions.
\<close>

definition Math_round :: "rat \<Rightarrow> int" where
  "Math_round x = \<lfloor>x + 1 / 2\<rfloor>"

definition gradeExamQuestions ::
  "runtime \<Rightarrow> Exam \<Rightarrow> ExamAnswer list \<Rightarrow> world \<Rightarrow> (exn + ExamGradeResult) \<times> world" where
  "gradeExamQuestions rt exam answers w =
     (case gradeQuestions rt (answerMap answers) (e_questions exam) [] w of
        (Inl error, w1) \<Rightarrow> (Inl error, w1)
      | (Inr results, w1) \<Rightarrow>
          (let totalScore = foldl (\<lambda>sum r. sum + gr_score r) 0 results;
               overall = Math_round (of_int totalScore / of_nat (length results))
           in (Inr \<lparr>overallScore = overall, passed = (PASS_THRESHOLD \<le> overall),
                    questionResults = results\<rparr>, w1)))"

text \<open>\<^verbatim>\<open>gradeExam(exam, answers)\<close> of the service.\<close>

definition gradeExam ::
  "runtime \<Rightarrow> Exam \<Rightarrow> ExamAnswer list \<Rightarrow> world \<Rightarrow> (exn + ExamGradeResult) \<times> world" where
  "gradeExam rt exam answers w =
     (if length (e_questions exam) = 0 then
        (Inl (GradingException
                \<lparr>err_type = INVALID_SCORE, err_message = ''Exam must have questions''\<rparr> 0), w)
      else if length answers = 0 then
        (Inl (GradingException
                \<lparr>err_type = INVALID_SCORE,
                 err_message = ''No answers provided for grading''\<rparr> 0), w)
      else gradeExamQuestions rt exam answers w)"

subsection \<open>The grading action (actions/grading-actions.ts)\<close>

text \<open>\<^verbatim>\<open>questions.findIndex(p)\<close>; \<open>None\<close> is \<open>-1\<close>.\<close>

fun findIndex :: "('a \<Rightarrow> bool) \<Rightarrow> 'a list \<Rightarrow> nat option" where
  "findIndex p [] = None"
| "findIndex p (x # xs) = (if p x then Some 0 else map_option Suc (findIndex p xs))"

text \<open>\<^verbatim>\<open>results[index]\<close>; \<open>None\<close> is \<^verbatim>\<open>undefined\<close>.\<close>

definition result_at :: "'a list \<Rightarrow> nat option \<Rightarrow> 'a option" where
  "result_at results index =
     (case index of None \<Rightarrow> None
      | Some i \<Rightarrow> if i < length results then Some (results ! i) else None)"

text \<open>
  The loop over the answers read before grading (lines 1012 to 1026): the answer whose
  question has a result is updated by its primary key.
\<close>

fun updateAnswers ::
  "ExamQuestion list \<Rightarrow> GradeResult list \<Rightarrow> int \<Rightarrow> ExamAnswer list \<Rightarrow> ExamAnswer list
     \<Rightarrow> ExamAnswer list" where
  "updateAnswers questions results gradedAt [] table = table"
| "updateAnswers questions results gradedAt (answer # rest) table =
     (case result_at results (findIndex (\<lambda>q. q_id q = a_question_id answer) questions) of
        Some result \<Rightarrow>
          updateAnswers questions results gradedAt rest
            (update_where (\<lambda>a. a_id a = a_id answer)
               (\<lambda>a. a\<lparr>a_score := Some (gr_score result), a_feedback := Some (gr_feedback result),
                      a_graded_at := Some gradedAt\<rparr>) table)
      | None \<Rightarrow> updateAnswers questions results gradedAt rest table)"

definition error_code :: "ErrorType \<Rightarrow> string" where
  "error_code t = (case t of INVALID_RESPONSE \<Rightarrow> ''invalid_response''
     | INVALID_SCORE \<Rightarrow> ''invalid_score'' | TIMEOUT \<Rightarrow> ''timeout''
     | RATE_LIMITED \<Rightarrow> ''rate_limited'' | MAX_RETRIES_EXCEEDED \<Rightarrow> ''max_retries_exceeded''
     | API_ERROR \<Rightarrow> ''api_error'')"

text \<open>
  \<^verbatim>\<open>gradeExam(examId)\<close>, the server action. On a grading exception the exam becomes
  \<^verbatim>\<open>grading_failed\<close>; otherwise the exam and its answers are written. The commitments
  table is only read.
\<close>

definition gradeExam_action ::
  "runtime \<Rightarrow> string option \<Rightarrow> string \<Rightarrow> int \<Rightarrow> database \<Rightarrow> world
     \<Rightarrow> ExamGradeResult ActionResult \<times> database \<times> world" where
  "gradeExam_action rt userId examId now db w =
     (case userId of
        None \<Rightarrow> (failure ''auth'' ''You must be signed in'' ''unauthorized'', db, w)
      | Some uid \<Rightarrow>
          if uid = [] then (failure ''auth'' ''You must be signed in'' ''unauthorized'', db, w)
          else if examId = [] then
            (failure ''examId'' ''Exam ID is required'' ''invalid_input'', db, w)
          else
            (case select_exam_with_owner examId db of
               None \<Rightarrow> (failure ''examId'' ''Exam not found'' ''not_found'', db, w)
             | Some (exam, owner) \<Rightarrow>
                 if owner \<noteq> uid then (failure ''auth'' ''Access denied'' ''forbidden'', db, w)
                 else if e_status exam \<noteq> submitted then
                   (failure ''exam''
                      (''Cannot grade exam with status: '' @ exam_status_name (e_status exam))
                      ''invalid_status'', db, w)
                 else
                   (let answers = filter (\<lambda>a. a_exam_id a = examId) (exam_answers db) in
                    case gradeExam rt exam answers w of
                      (Inl error, w') \<Rightarrow>
                        (let db' = db\<lparr>exams := update_where (\<lambda>e. e_id e = examId)
                                     (\<lambda>e. e\<lparr>e_status := grading_failed\<rparr>) (exams db)\<rparr>
                         in case error of
                              GradingException err attempts \<Rightarrow>
                                (failure ''grading'' (err_message err) (error_code (err_type err)),
                                 db', w')
                            | _ \<Rightarrow>
                                (failure ''grading'' ''Grading failed'' ''grading_failed'', db', w'))
                    | (Inr gradeResult, w') \<Rightarrow>
                        (let db1 = db\<lparr>exams := update_where (\<lambda>e. e_id e = examId)
                                     (\<lambda>e. e\<lparr>e_status := graded,
                                            e_overall_score := Some (overallScore gradeResult),
                                            e_passed := Some (passed gradeResult)\<rparr>) (exams db)\<rparr>;
                             db2 = db1\<lparr>exam_answers :=
                                     updateAnswers (e_questions exam) (questionResults gradeResult)
                                       now answers (exam_answers db1)\<rparr>
                         in (Success gradeResult, db2, w')))))"

subsection \<open>Notions used in the properties\<close>

text \<open>
  What a validated question set looks like: five to ten questions, all three types, and
  four options and a correct answer that is not empty on every multiple choice question.
\<close>

definition question_set_ok :: "ExamQuestion list \<Rightarrow> bool" where
  "question_set_ok qs =
     (5 \<le> length qs \<and> length qs \<le> 10
      \<and> multiple_choice \<in> q_type ` set qs \<and> short_answer \<in> q_type ` set qs
      \<and> application \<in> q_type ` set qs
      \<and> (\<forall>q \<in> set qs. q_type q = multiple_choice \<longrightarrow>
            (\<exists>opts ca. q_options q = Some opts \<and> length opts = 4
               \<and> q_correct_answer q = Some ca \<and> ca \<noteq> [])))"



text \<open>
  A question is unanswered when no answer carries its identifier, or when the answer that
  does consists of white space only (the empty answer included).
\<close>

definition unanswered :: "ExamAnswer list \<Rightarrow> ExamQuestion \<Rightarrow> bool" where
  "unanswered answers question =
     (case answerMap answers (q_id question) of
        None \<Rightarrow> True
      | Some answer \<Rightarrow> list_all is_space (a_user_answer answer))"

subsection \<open>Example data\<close>

text \<open>A fresh commitment: fifty dollars on a week of Rust, its deadline at time 1000.\<close>

definition commitment1 :: Commitment where
  "commitment1 = \<lparr>c_id = ''c1'', c_user_id = ''u1'', c_topic = ''Rust'', c_stake_amount = 50,
     c_duration_days = 7, c_deadline = 1000, c_status = active, c_stake_status = at_risk,
     c_retry_used = False\<rparr>"

text \<open>The same commitment after two failed exams, and after a passed one.\<close>

definition commitment1_failed :: Commitment where
  "commitment1_failed = commitment1\<lparr>c_status := failed, c_stake_status := burned,
     c_retry_used := True\<rparr>"

definition commitment1_completed :: Commitment where
  "commitment1_completed = commitment1\<lparr>c_status := completed, c_stake_status := saved\<rparr>"

text \<open>
  The state before a request: two API keys, nothing called yet.
\<close>

definition world0 :: world where
  "world0 = \<lparr>api_keys = [''key-a'', ''key-b''], generator_key_index = 0, grader_key_index = 0,
     llm_calls = 0, delays = [], uuid_calls = 0\<rparr>"

text \<open>
  An answer of the model as \<^verbatim>\<open>JSON.parse\<close> returns it: seven questions, the first a
  multiple choice question written the way the prompt asks for it (lettered options,
  the letter as correct answer).
\<close>

definition mc_options :: "string list" where
  "mc_options = [''A) ownership'', ''B) garbage collection'', ''C) reference counting'',
     ''D) manual free'']"

definition open_question_json :: "string \<Rightarrow> string \<Rightarrow> json" where
  "open_question_json i t = JObj [(''id'', JStr i), (''type'', JStr t),
     (''question'', JStr ''Explain borrowing.''), (''difficulty'', JStr ''advanced'')]"

definition mc_question_json :: "string \<Rightarrow> json" where
  "mc_question_json i = JObj [(''id'', JStr i), (''type'', JStr ''multiple_choice''),
     (''question'', JStr ''How does Rust free memory?''),
     (''options'', JArr (map JStr mc_options)),
     (''correct_answer'', JStr ''A''), (''difficulty'', JStr ''intermediate'')]"

definition exam_json :: json where
  "exam_json = JObj [(''questions'', JArr [mc_question_json ''q1'',
     open_question_json ''q2'' ''short_answer'', open_question_json ''q3'' ''application'',
     open_question_json ''q4'' ''short_answer'', open_question_json ''q5'' ''application'',
     open_question_json ''q6'' ''short_answer'', open_question_json ''q7'' ''application''])]"

text \<open>The questions the generator returns for it, with fresh identifiers.\<close>

definition open_question :: "string \<Rightarrow> QuestionType \<Rightarrow> ExamQuestion" where
  "open_question i t = \<lparr>q_id = i, q_type = t, q_question = ''Explain borrowing.'',
     q_options = None, q_correct_answer = None, q_difficulty = advanced\<rparr>"

definition mc_question :: "string \<Rightarrow> ExamQuestion" where
  "mc_question i = \<lparr>q_id = i, q_type = multiple_choice,
     q_question = ''How does Rust free memory?'', q_options = Some mc_options,
     q_correct_answer = Some ''A'', q_difficulty = intermediate\<rparr>"

definition seven_questions :: "ExamQuestion list" where
  "seven_questions = [mc_question ''uuid-0'', open_question ''uuid-1'' short_answer,
     open_question ''uuid-2'' application, open_question ''uuid-3'' short_answer,
     open_question ''uuid-4'' application, open_question ''uuid-5'' short_answer,
     open_question ''uuid-6'' application]"

text \<open>
  Four runs of the collaborators. In the first the model answers well at once. In the
  second it answers twice with text that is not JSON and then well. In the third the
  first request times out and the second is answered well. In the fourth every request
  fails, each for another cause: a time-out, text that is not JSON, a rate limit.
\<close>

definition rt_good :: runtime where
  "rt_good = \<lparr>rt_llm = (\<lambda>k. Completion (Some ''{questions}'')),
     rt_json_parse = (\<lambda>s. Inr exam_json),
     rt_zod_message = (\<lambda>v. ''invalid''),
     rt_uuidv4 = (\<lambda>k. ''uuid-'' @ string_of_nat k),
     rt_db_id = (\<lambda>k. ''row-'' @ string_of_nat k)\<rparr>"

definition rt_third_time :: runtime where
  "rt_third_time = rt_good\<lparr>
     rt_llm := (\<lambda>k. if k < 2 then Completion (Some ''Here you go'') else Completion (Some ''{questions}'')),
     rt_json_parse := (\<lambda>s. if s = ''Here you go'' then Inl ''Unexpected token H in JSON at position 0''
                           else Inr exam_json)\<rparr>"

definition rt_second_time :: runtime where
  "rt_second_time = rt_good\<lparr>
     rt_llm := (\<lambda>k. if k < 1 then Throws ''Request timeout'' else Completion (Some ''{questions}''))\<rparr>"

definition rt_down :: runtime where
  "rt_down = rt_good\<lparr>
     rt_llm := (\<lambda>k. if k = 0 then Throws ''Request timeout''
                    else if k = 1 then Completion (Some ''Here you go'')
                    else Throws ''429 rate limit reached''),
     rt_json_parse := (\<lambda>s. Inl ''Unexpected token H in JSON at position 0'')\<rparr>"

text \<open>A database with the fresh commitment and no exam.\<close>

definition db1 :: database where
  "db1 = \<lparr>commitments = [commitment1], exams = [], exam_answers = [], id_seq = 0\<rparr>"

definition parse_failure :: exn where
  "parse_failure =
     Error ''Failed to parse LLM response as JSON: Unexpected token H in JSON at position 0''"

text \<open>The state after one successful attempt that drew seven identifiers.\<close>

definition world_after_one :: world where
  "world_after_one = world0\<lparr>generator_key_index := 1, llm_calls := 1, uuid_calls := 7\<rparr>"

text \<open>
  A database in which the commitment already has a pending exam, and the exam a second
  request creates.
\<close>

definition pending_exam :: Exam where
  "pending_exam = \<lparr>e_id = ''row-0'', e_commitment_id = ''c1'', e_questions = seven_questions,
     e_status = pending, e_started_at = None, e_submitted_at = None, e_overall_score = None,
     e_passed = None\<rparr>"

definition db_pending :: database where
  "db_pending = \<lparr>commitments = [commitment1], exams = [pending_exam], exam_answers = [],
     id_seq = 1\<rparr>"

definition second_exam :: Exam where
  "second_exam = pending_exam\<lparr>e_id := ''row-1''\<rparr>"

text \<open>
  Grading: the model gives every answer the score \<open>s\<close>. A submitted exam of one
  question with its answer, and the state after one grading request.
\<close>

definition grade_json :: "int \<Rightarrow> json" where
  "grade_json s = JObj [(''score'', JNum (of_int s)), (''feedback'', JStr ''Graded.'')]"

definition rt_grader :: "int \<Rightarrow> runtime" where
  "rt_grader s = rt_good\<lparr>rt_llm := (\<lambda>k. Completion (Some ''{grade}'')),
     rt_json_parse := (\<lambda>text. Inr (grade_json s))\<rparr>"

definition submitted_exam :: Exam where
  "submitted_exam = \<lparr>e_id = ''e1'', e_commitment_id = ''c1'',
     e_questions = [mc_question ''q1''], e_status = submitted, e_started_at = Some 100,
     e_submitted_at = Some 200, e_overall_score = None, e_passed = None\<rparr>"

definition answer1 :: ExamAnswer where
  "answer1 = \<lparr>a_id = ''a1'', a_exam_id = ''e1'', a_question_id = ''q1'', a_user_answer = ''A'',
     a_score = None, a_feedback = None, a_graded_at = None\<rparr>"

definition world_graded :: world where
  "world_graded = world0\<lparr>grader_key_index := 1, llm_calls := 1\<rparr>"

text \<open>An exam of two questions, and a blank answer to the second.\<close>

definition two_question_exam :: Exam where
  "two_question_exam = submitted_exam\<lparr>e_questions := [mc_question ''q1'', open_question ''q2'' short_answer]\<rparr>"

definition answer2_blank :: ExamAnswer where
  "answer2_blank = \<lparr>a_id = ''a2'', a_exam_id = ''e1'', a_question_id = ''q2'', a_user_answer = '' '',
     a_score = None, a_feedback = None, a_graded_at = None\<rparr>"

text \<open>
  The database when the exam of one question has been submitted, and the rows the grading
  action writes when the model gives the score 100.
\<close>

definition db_submitted :: database where
  "db_submitted = \<lparr>commitments = [commitment1], exams = [submitted_exam],
     exam_answers = [answer1], id_seq = 2\<rparr>"

definition graded_exam :: Exam where
  "graded_exam = submitted_exam\<lparr>e_status := graded, e_overall_score := Some 100,
     e_passed := Some True\<rparr>"

definition graded_answer1 :: ExamAnswer where
  "graded_answer1 = answer1\<lparr>a_score := Some 100, a_feedback := Some ''Graded.'',
     a_graded_at := Some 500\<rparr>"

text \<open>
  The database while the exam is in progress, with an answer that carries a score and a
  feedback.
\<close>

definition in_progress_exam :: Exam where
  "in_progress_exam = submitted_exam\<lparr>e_status := in_progress, e_submitted_at := None\<rparr>"

definition scored_answer1 :: ExamAnswer where
  "scored_answer1 = answer1\<lparr>a_score := Some 80, a_feedback := Some ''Good.''\<rparr>"

definition db_in_progress :: database where
  "db_in_progress = \<lparr>commitments = [commitment1], exams = [in_progress_exam],
     exam_answers = [scored_answer1], id_seq = 2\<rparr>"

section \<open>Properties\<close>

subsection \<open>Tables\<close>

lemma select_single_SomeD: "select_single p rows = Some r \<Longrightarrow> filter p rows = [r]"
  by (auto simp: select_single_def split: list.splits)

lemma filter_update_where:
  "(\<And>r. p r \<Longrightarrow> p (f r)) \<Longrightarrow> filter p (update_where p f rows) = map f (filter p rows)"
  by (induction rows) (auto simp: update_where_def)

subsection \<open>Stake resolution\<close>

text \<open>
  A commitment that is completed with its stake saved is left as it is by a passing
  result: the decision equals the stored columns and nothing is written.
\<close>

lemma resolveStake_completed_pass_unchanged:
  assumes "select_single (\<lambda>c. c_id c = cid) table = Some c"
      and "c_status c = completed" and "c_stake_status c = saved"
  shows "resolveStake now cid True table =
           (Inr \<lparr>r_commitment = c, r_previousStatus = completed, r_previousStakeStatus = saved,
                 r_action = action_saved,
                 r_message = ''Congratulations! You passed and saved your stake.''\<rparr>, table)"
  using assms by (simp add: resolveStake_def resolveDecision_def)

text \<open>
  Claim C2. The claim: on a commitment whose status is terminal (completed, failed or
  expired) \<^verbatim>\<open>resolveStake\<close> changes neither status, stake status nor retry flag,
  whatever the exam result. The code has no such guard: on the failed commitment whose
  stake is burned, a passing result before the deadline writes completed and saved.
\<close>

theorem resolveStake_revives_failed_commitment:
  "resolveStake 0 ''c1'' True [commitment1_failed] =
     (Inr \<lparr>r_commitment = commitment1_failed\<lparr>c_status := completed, c_stake_status := saved\<rparr>,
           r_previousStatus = failed, r_previousStakeStatus = burned,
           r_action = action_saved,
           r_message = ''Congratulations! You passed and saved your stake.''\<rparr>,
      [commitment1_failed\<lparr>c_status := completed, c_stake_status := saved\<rparr>])"
  by (simp add: resolveStake_def resolveDecision_def update_single_def update_where_def
                select_single_def commitment1_failed_def commitment1_def)

text \<open>
  Claim C3, as amended. For every active commitment whose deadline has passed,
  \<^verbatim>\<open>resolveStake\<close> yields status expired, stake status burned and the action burned,
  whether the exam was passed or not (the deadline rule comes before the pass rule),
  and stores that row.
\<close>

theorem resolveStake_deadline_precedence:
  assumes "select_single (\<lambda>c. c_id c = cid) table = Some c"
      and "c_status c = active" and "now > c_deadline c"
  shows "\<exists>r table'. resolveStake now cid examPassed table = (Inr r, table')
      \<and> c_status (r_commitment r) = expired \<and> c_stake_status (r_commitment r) = burned
      \<and> r_action r = action_burned
      \<and> select_single (\<lambda>c. c_id c = cid) table' = Some (r_commitment r)"
proof -
  from assms(1) have "filter (\<lambda>c. c_id c = cid) table = [c]"
    by (rule select_single_SomeD)
  with assms show ?thesis
    by (simp add: resolveStake_def resolveDecision_def update_single_def
                  select_single_def filter_update_where)
qed

theorem resolveStake_deadline_precedence_witness:
  "select_single (\<lambda>c. c_id c = ''c1'') [commitment1] = Some commitment1
   \<and> c_status commitment1 = active \<and> 2000 > c_deadline commitment1
   \<and> (\<exists>r table'. resolveStake 2000 ''c1'' True [commitment1] = (Inr r, table')
      \<and> c_status (r_commitment r) = expired \<and> c_stake_status (r_commitment r) = burned
      \<and> r_action r = action_burned
      \<and> select_single (\<lambda>c. c_id c = ''c1'') table' = Some (r_commitment r))"
proof -
  have a: "select_single (\<lambda>c. c_id c = ''c1'') [commitment1] = Some commitment1"
    by (simp add: select_single_def commitment1_def)
  have b: "c_status commitment1 = active" by (simp add: commitment1_def)
  have c: "2000 > c_deadline commitment1" by (simp add: commitment1_def)
  show ?thesis
    using a b c resolveStake_deadline_precedence [OF a b c, of True] by simp
qed

text \<open>
  The claim as stated, for every commitment, fails: past the deadline a completed
  commitment resolved with a passing result stays completed and saved, with the action
  saved.
\<close>

theorem resolveStake_deadline_counterexample:
  "c_deadline commitment1_completed < 2000
   \<and> resolveStake 2000 ''c1'' True [commitment1_completed] =
       (Inr \<lparr>r_commitment = commitment1_completed, r_previousStatus = completed,
             r_previousStakeStatus = saved, r_action = action_saved,
             r_message = ''Congratulations! You passed and saved your stake.''\<rparr>,
        [commitment1_completed])
   \<and> c_status commitment1_completed \<noteq> expired"
  by (simp add: resolveStake_def resolveDecision_def select_single_def
                commitment1_completed_def commitment1_def)

text \<open>
  Claim C7. For an active commitment whose retry is unused, a failing result before the
  deadline yields the action retry allowed, sets the retry flag and leaves status and
  stake status as they were; a second failing result on the stored commitment, still
  before the deadline, yields status failed, stake status burned and the action burned.
\<close>

theorem resolveStake_retry_then_burn:
  assumes "select_single (\<lambda>c. c_id c = cid) table = Some c"
      and "c_status c = active" and "\<not> c_retry_used c"
      and "\<not> now1 > c_deadline c" and "\<not> now2 > c_deadline c"
  shows "\<exists>r1 table1 r2 table2.
       resolveStake now1 cid False table = (Inr r1, table1)
     \<and> r_action r1 = action_retry_allowed
     \<and> c_retry_used (r_commitment r1)
     \<and> c_status (r_commitment r1) = c_status c
     \<and> c_stake_status (r_commitment r1) = c_stake_status c
     \<and> select_single (\<lambda>c. c_id c = cid) table1 = Some (r_commitment r1)
     \<and> resolveStake now2 cid False table1 = (Inr r2, table2)
     \<and> c_status (r_commitment r2) = failed
     \<and> c_stake_status (r_commitment r2) = burned
     \<and> r_action r2 = action_burned
     \<and> select_single (\<lambda>c. c_id c = cid) table2 = Some (r_commitment r2)"
proof -
  from assms(1) have "filter (\<lambda>c. c_id c = cid) table = [c]"
    by (rule select_single_SomeD)
  with assms show ?thesis
    by (simp add: resolveStake_def resolveDecision_def update_single_def
                  select_single_def filter_update_where)
qed

theorem resolveStake_retry_then_burn_witness:
  "resolveStake 10 ''c1'' False [commitment1] =
     (Inr \<lparr>r_commitment = commitment1\<lparr>c_retry_used := True\<rparr>, r_previousStatus = active,
           r_previousStakeStatus = at_risk, r_action = action_retry_allowed,
           r_message = ''You did not pass. You have one retry remaining.''\<rparr>,
      [commitment1\<lparr>c_retry_used := True\<rparr>])
   \<and> (\<exists>r2 table2.
         resolveStake 20 ''c1'' False [commitment1\<lparr>c_retry_used := True\<rparr>] = (Inr r2, table2)
       \<and> c_status (r_commitment r2) = failed
       \<and> c_stake_status (r_commitment r2) = burned
       \<and> r_action r2 = action_burned)"
proof -
  have a: "select_single (\<lambda>c. c_id c = ''c1'') [commitment1] = Some commitment1"
    by (simp add: select_single_def commitment1_def)
  have b: "c_status commitment1 = active" by (simp add: commitment1_def)
  have c: "\<not> c_retry_used commitment1" by (simp add: commitment1_def)
  have d: "\<not> 10 > c_deadline commitment1" by (simp add: commitment1_def)
  have e: "\<not> 20 > c_deadline commitment1" by (simp add: commitment1_def)
  have first: "resolveStake 10 ''c1'' False [commitment1] =
     (Inr \<lparr>r_commitment = commitment1\<lparr>c_retry_used := True\<rparr>, r_previousStatus = active,
           r_previousStakeStatus = at_risk, r_action = action_retry_allowed,
           r_message = ''You did not pass. You have one retry remaining.''\<rparr>,
      [commitment1\<lparr>c_retry_used := True\<rparr>])"
    by (simp add: resolveStake_def resolveDecision_def update_single_def update_where_def
                  select_single_def commitment1_def)
  from resolveStake_retry_then_burn [OF a b c d e] first show ?thesis
    by auto
qed

subsection \<open>Exam generation: the retry loop\<close>

declare generateExamWithRetry_loop.simps [simp del]
declare gradeAnswerWithRetry_loop.simps [simp del]

text \<open>An attempt sends at most one request and takes no pause.\<close>

lemma transformQuestions_frame:
  "transformQuestions rt qs w = (r, w') \<Longrightarrow>
     llm_calls w' = llm_calls w \<and> delays w' = delays w"
  by (induction qs arbitrary: w r w') (auto split: if_splits prod.splits)

lemma validateAndTransformResponse_frame:
  "validateAndTransformResponse rt raw n w = (r, w') \<Longrightarrow>
     llm_calls w' = llm_calls w \<and> delays w' = delays w"
  by (auto simp: validateAndTransformResponse_def
           split: sum.splits option.splits if_splits prod.splits
           dest: transformQuestions_frame)

lemma attemptGeneration_frame:
  "attemptGeneration rt topic n a w = (r, w') \<Longrightarrow>
     llm_calls w' \<le> llm_calls w + 1 \<and> delays w' = delays w"
  by (auto simp: attemptGeneration_def getNextKey_generator_def llm_request_def
           split: sum.splits option.splits if_splits prod.splits llm_outcome.splits
           dest!: validateAndTransformResponse_frame)

lemma generateExamWithRetry_loop_calls:
  "generateExamWithRetry_loop rt topic n a le w = (r, w') \<Longrightarrow>
     llm_calls w' \<le> llm_calls w + (maxRetries + 1 - a)"
proof (induction rt topic n a le w arbitrary: r w' rule: generateExamWithRetry_loop.induct)
  case (1 rt topic n a le w)
  show ?case
  proof (cases "a \<le> maxRetries")
    case False
    with "1.prems" show ?thesis
      by (simp add: generateExamWithRetry_loop.simps [of rt topic n a le w])
  next
    case True
    obtain x w1 where att: "attemptGeneration rt topic n a w = (x, w1)"
      by (cases "attemptGeneration rt topic n a w")
    then have fr: "llm_calls w1 \<le> llm_calls w + 1" by (auto dest: attemptGeneration_frame)
    show ?thesis
    proof (cases x)
      case (Inr qs)
      with True att "1.prems" fr show ?thesis
        by (simp add: generateExamWithRetry_loop.simps [of rt topic n a le w])
    next
      case (Inl e)
      let ?w2 = "if a < maxRetries then delay (backoffMs ! (a - 1)) w1 else w1"
      from True att Inl "1.prems"
      have rec: "generateExamWithRetry_loop rt topic n (a + 1) (Some (categorizeError e)) ?w2 = (r, w')"
        by (simp add: generateExamWithRetry_loop.simps [of rt topic n a le w])
      from "1.IH" [OF True att [symmetric] Inl rec]
      have "llm_calls w' \<le> llm_calls ?w2 + (maxRetries + 1 - (a + 1))" .
      moreover have "llm_calls ?w2 = llm_calls w1" by (simp add: delay_def)
      ultimately show ?thesis using fr True by simp
    qed
  qed
qed

lemma categorizeError_message: "err_message (categorizeError e) = exn_message e"
  by (cases e) (simp_all add: categorizeError_def exn_message_def Let_def)

lemma generateExam_action_failure:
  assumes "generateExam rt topic 7 w = (Inl e, w')"
      and "select_single (\<lambda>x. c_id x = cid) (commitments db) = Some c"
      and "c_topic c = topic"
  shows "\<exists>errs wf. generateExam_action rt uid cid now db w = (Failure errs, db, wf)"
  using assms
  by (auto simp: generateExam_action_def failure_def split: option.splits)

text \<open>
  Claim C8. Generation sends at most three requests to the model, and for every
  sequence of outcomes of its attempts, whatever the causes \<open>e1\<close>, \<open>e2\<close>, \<open>e3\<close> of
  the failures:
  \<^item> when the first attempt succeeds, its questions are returned and no pause is taken;
  \<^item> when the first attempt fails, the second starts after a pause of 1000 ms; when
    that one succeeds, its questions are returned and no other pause is taken;
  \<^item> when the second attempt fails too, the third starts after a pause of 2000 ms;
    when that one succeeds, its questions are returned;
  \<^item> when the third attempt fails too, the exception \<^verbatim>\<open>MAX_RETRIES_EXCEEDED\<close> is
    thrown with the message of the last cause (\<^verbatim>\<open>Unknown\<close> when that message is
    empty), after the same two pauses and no other.
  When generation throws, the server action returns a failure and leaves the database
  as it was: no exam is created.
\<close>

theorem generateExamWithRetry_policy:
  "llm_calls (snd (generateExamWithRetry rt topic n w)) \<le> llm_calls w + 3
   \<and> (attemptGeneration rt topic n 1 w = (Inr qs1, v1) \<longrightarrow>
        generateExamWithRetry rt topic n w = (Inr qs1, v1) \<and> delays v1 = delays w)
   \<and> (attemptGeneration rt topic n 1 w = (Inl e1, w1) \<longrightarrow>
        (attemptGeneration rt topic n 2 (delay 1000 w1) = (Inr qs2, v2) \<longrightarrow>
           generateExamWithRetry rt topic n w = (Inr qs2, v2)
           \<and> delays v2 = delays w @ [1000])
      \<and> (attemptGeneration rt topic n 2 (delay 1000 w1) = (Inl e2, w2) \<longrightarrow>
          (attemptGeneration rt topic n 3 (delay 2000 w2) = (Inr qs, w3) \<longrightarrow>
             generateExamWithRetry rt topic n w = (Inr qs, w3)
             \<and> delays w3 = delays w @ [1000, 2000])
        \<and> (attemptGeneration rt topic n 3 (delay 2000 w2) = (Inl e3, w4) \<longrightarrow>
             generateExamWithRetry rt topic n w =
               (Inl (ExamGenerationException
                  \<lparr>err_type = MAX_RETRIES_EXCEEDED,
                   err_message = ''Failed to generate exam after 3 attempts. Last error: ''
                     @ (if exn_message e3 = [] then ''Unknown'' else exn_message e3)\<rparr> 3), w4)
             \<and> delays w4 = delays w @ [1000, 2000])))
   \<and> (generateExam rt (c_topic c) 7 w = (Inl e, w') \<longrightarrow>
        select_single (\<lambda>x. c_id x = cid) (commitments db) = Some c \<longrightarrow>
          (\<exists>errs wf. generateExam_action rt uid cid now db w = (Failure errs, db, wf)))"
proof (intro conjI impI)
  show "llm_calls (snd (generateExamWithRetry rt topic n w)) \<le> llm_calls w + 3"
    using generateExamWithRetry_loop_calls [of rt topic n 1 None w]
    by (cases "generateExamWithRetry_loop rt topic n 1 None w")
       (simp add: generateExamWithRetry_def maxRetries_def)
next
  assume a1: "attemptGeneration rt topic n 1 w = (Inr qs1, v1)"
  from a1 show "generateExamWithRetry rt topic n w = (Inr qs1, v1)"
    by (simp add: generateExamWithRetry_def generateExamWithRetry_loop.simps maxRetries_def)
  from a1 show "delays v1 = delays w"
    by (auto dest!: attemptGeneration_frame)
next
  assume a1: "attemptGeneration rt topic n 1 w = (Inl e1, w1)"
     and a2: "attemptGeneration rt topic n 2 (delay 1000 w1) = (Inr qs2, v2)"
  have a2': "attemptGeneration rt topic n (Suc (Suc 0)) (delay 1000 w1) = (Inr qs2, v2)"
    using a2 by (simp add: numeral_2_eq_2)
  from a1 a2' show "generateExamWithRetry rt topic n w = (Inr qs2, v2)"
    by (simp add: generateExamWithRetry_def generateExamWithRetry_loop.simps
                  maxRetries_def backoffMs_def)
  from a1 a2 show "delays v2 = delays w @ [1000]"
    by (auto dest!: attemptGeneration_frame simp: delay_def)
next
  assume a1: "attemptGeneration rt topic n 1 w = (Inl e1, w1)"
     and a2: "attemptGeneration rt topic n 2 (delay 1000 w1) = (Inl e2, w2)"
     and a3: "attemptGeneration rt topic n 3 (delay 2000 w2) = (Inr qs, w3)"
  have a2': "attemptGeneration rt topic n (Suc (Suc 0)) (delay 1000 w1) = (Inl e2, w2)"
    using a2 by (simp add: numeral_2_eq_2)
  have a3': "attemptGeneration rt topic n (Suc (Suc (Suc 0))) (delay 2000 w2) = (Inr qs, w3)"
    using a3 by (simp add: numeral_3_eq_3)
  from a1 a2' a3' show "generateExamWithRetry rt topic n w = (Inr qs, w3)"
    by (simp add: generateExamWithRetry_def generateExamWithRetry_loop.simps
                  maxRetries_def backoffMs_def)
  from a1 a2 a3 show "delays w3 = delays w @ [1000, 2000]"
    by (auto dest!: attemptGeneration_frame simp: delay_def)
next
  assume a1: "attemptGeneration rt topic n 1 w = (Inl e1, w1)"
     and a2: "attemptGeneration rt topic n 2 (delay 1000 w1) = (Inl e2, w2)"
     and a3: "attemptGeneration rt topic n 3 (delay 2000 w2) = (Inl e3, w4)"
  have a2': "attemptGeneration rt topic n (Suc (Suc 0)) (delay 1000 w1) = (Inl e2, w2)"
    using a2 by (simp add: numeral_2_eq_2)
  have a3': "attemptGeneration rt topic n (Suc (Suc (Suc 0))) (delay 2000 w2) = (Inl e3, w4)"
    using a3 by (simp add: numeral_3_eq_3)
  from a1 a2' a3' show "generateExamWithRetry rt topic n w =
               (Inl (ExamGenerationException
                  \<lparr>err_type = MAX_RETRIES_EXCEEDED,
                   err_message = ''Failed to generate exam after 3 attempts. Last error: ''
                     @ (if exn_message e3 = [] then ''Unknown'' else exn_message e3)\<rparr> 3), w4)"
    by (simp add: generateExamWithRetry_def generateExamWithRetry_loop.simps
                  maxRetries_def backoffMs_def lastErrorMessage_def categorizeError_message
                  digit_char_def)
  from a1 a2 a3 show "delays w4 = delays w @ [1000, 2000]"
    by (auto dest!: attemptGeneration_frame simp: delay_def)
next
  assume "generateExam rt (c_topic c) 7 w = (Inl e, w')"
     and "select_single (\<lambda>x. c_id x = cid) (commitments db) = Some c"
  then show "\<exists>errs wf. generateExam_action rt uid cid now db w = (Failure errs, db, wf)"
    by (rule generateExam_action_failure) simp
qed

theorem generateExamWithRetry_policy_witness:
  "generateExamWithRetry rt_good ''Rust'' 7 world0 = (Inr seven_questions, world_after_one)
   \<and> delays world_after_one = []
   \<and> generateExamWithRetry rt_second_time ''Rust'' 7 world0 =
     (Inr seven_questions,
      world0\<lparr>generator_key_index := 0, llm_calls := 2, delays := [1000], uuid_calls := 7\<rparr>)
   \<and> generateExamWithRetry rt_third_time ''Rust'' 7 world0 =
     (Inr seven_questions,
      world0\<lparr>generator_key_index := 1, llm_calls := 3, delays := [1000, 2000], uuid_calls := 7\<rparr>)
   \<and> generateExamWithRetry rt_down ''Rust'' 7 world0 =
     (Inl (ExamGenerationException
        \<lparr>err_type = MAX_RETRIES_EXCEEDED,
         err_message = ''Failed to generate exam after 3 attempts. Last error: 429 rate limit reached''\<rparr> 3),
      world0\<lparr>generator_key_index := 1, llm_calls := 3, delays := [1000, 2000]\<rparr>)
   \<and> (\<exists>errs wf. generateExam_action rt_down (Some ''u1'') ''c1'' 500 db1 world0 = (Failure errs, db1, wf))"
proof -
  let ?w1 = "world0\<lparr>generator_key_index := 1, llm_calls := 1\<rparr>"
  let ?v2 = "world0\<lparr>generator_key_index := 0, llm_calls := 2, delays := [1000], uuid_calls := 7\<rparr>"
  let ?w2 = "world0\<lparr>generator_key_index := 0, llm_calls := 2, delays := [1000]\<rparr>"
  let ?w3 = "world0\<lparr>generator_key_index := 1, llm_calls := 3, delays := [1000, 2000], uuid_calls := 7\<rparr>"
  let ?w4 = "world0\<lparr>generator_key_index := 1, llm_calls := 3, delays := [1000, 2000]\<rparr>"
  have f1: "attemptGeneration rt_good ''Rust'' 7 1 world0 = (Inr seven_questions, world_after_one)"
    by code_simp
  have s1: "attemptGeneration rt_second_time ''Rust'' 7 1 world0 = (Inl (Error ''Request timeout''), ?w1)"
    by code_simp
  have s2: "attemptGeneration rt_second_time ''Rust'' 7 2 (delay 1000 ?w1) = (Inr seven_questions, ?v2)"
    by code_simp
  have a1: "attemptGeneration rt_third_time ''Rust'' 7 1 world0 = (Inl parse_failure, ?w1)"
    by code_simp
  have a2: "attemptGeneration rt_third_time ''Rust'' 7 2 (delay 1000 ?w1) = (Inl parse_failure, ?w2)"
    by code_simp
  have a3: "attemptGeneration rt_third_time ''Rust'' 7 3 (delay 2000 ?w2) = (Inr seven_questions, ?w3)"
    by code_simp
  have b1: "attemptGeneration rt_down ''Rust'' 7 1 world0 = (Inl (Error ''Request timeout''), ?w1)"
    by code_simp
  have b2: "attemptGeneration rt_down ''Rust'' 7 2 (delay 1000 ?w1) = (Inl parse_failure, ?w2)"
    by code_simp
  have b3: "attemptGeneration rt_down ''Rust'' 7 3 (delay 2000 ?w2) = (Inl (Error ''429 rate limit reached''), ?w4)"
    by code_simp
  have t: "c_topic commitment1 = ''Rust''" by (simp add: commitment1_def)
  have s: "select_single (\<lambda>x. c_id x = ''c1'') (commitments db1) = Some commitment1"
    by (simp add: select_single_def db1_def commitment1_def)
  have first: "generateExamWithRetry rt_good ''Rust'' 7 world0 = (Inr seven_questions, world_after_one)
      \<and> delays world_after_one = []"
    using generateExamWithRetry_policy [where rt = rt_good and topic = "''Rust''" and n = 7
        and w = world0 and ?qs1.0 = seven_questions and ?v1.0 = world_after_one] f1
    by (simp add: world0_def)
  have second: "generateExamWithRetry rt_second_time ''Rust'' 7 world0 = (Inr seven_questions, ?v2)"
    using generateExamWithRetry_policy [where rt = rt_second_time and topic = "''Rust''" and n = 7
        and w = world0 and ?e1.0 = "Error ''Request timeout''" and ?w1.0 = ?w1
        and ?qs2.0 = seven_questions and ?v2.0 = ?v2] s1 s2
    by simp
  have third: "generateExamWithRetry rt_third_time ''Rust'' 7 world0 = (Inr seven_questions, ?w3)"
    using generateExamWithRetry_policy [where rt = rt_third_time and topic = "''Rust''" and n = 7
        and w = world0 and ?e1.0 = parse_failure and ?w1.0 = ?w1 and ?e2.0 = parse_failure
        and ?w2.0 = ?w2 and qs = seven_questions and ?w3.0 = ?w3] a1 a2 a3
    by simp
  have down: "generateExamWithRetry rt_down ''Rust'' 7 world0 =
     (Inl (ExamGenerationException
        \<lparr>err_type = MAX_RETRIES_EXCEEDED,
         err_message = ''Failed to generate exam after 3 attempts. Last error: 429 rate limit reached''\<rparr> 3), ?w4)"
    using generateExamWithRetry_policy [where rt = rt_down and topic = "''Rust''" and n = 7
        and w = world0 and ?e1.0 = "Error ''Request timeout''" and ?w1.0 = ?w1
        and ?e2.0 = parse_failure and ?w2.0 = ?w2 and ?e3.0 = "Error ''429 rate limit reached''"
        and ?w4.0 = ?w4] b1 b2 b3
    by (simp add: exn_message_def)
  have g: "generateExam rt_down (c_topic commitment1) 7 world0 =
     (Inl (ExamGenerationException
        \<lparr>err_type = MAX_RETRIES_EXCEEDED,
         err_message = ''Failed to generate exam after 3 attempts. Last error: 429 rate limit reached''\<rparr> 3), ?w4)"
    using down by (simp add: generateExam_def t trim_def is_space_def)
  have act: "\<exists>errs wf. generateExam_action rt_down (Some ''u1'') ''c1'' 500 db1 world0 = (Failure errs, db1, wf)"
    using generateExamWithRetry_policy [where rt = rt_down and c = commitment1 and w = world0
        and cid = "''c1''" and db = db1 and uid = "Some ''u1''" and now = 500] g s
    by blast
  from first second third down act show ?thesis by simp
qed

subsection \<open>Exam generation: the question set\<close>

lemma transformQuestions_shape:
  "transformQuestions rt qs0 w = (qs, w') \<Longrightarrow>
     length qs = length qs0 \<and> map q_type qs = map q_type qs0
     \<and> (\<forall>q \<in> set qs. q_type q = multiple_choice \<longrightarrow>
           (\<exists>q0 \<in> set qs0. q_type q0 = multiple_choice \<and> q_options q = q_options q0
              \<and> q_correct_answer q = q_correct_answer q0))"
proof (induction qs0 arbitrary: w qs w')
  case Nil
  then show ?case by simp
next
  case (Cons q0 rest)
  then show ?case
    by (fastforce split: if_splits prod.splits)
qed

lemma checkMultipleChoice_None:
  "checkMultipleChoice qs = None \<Longrightarrow> q \<in> set qs \<Longrightarrow> q_type q = multiple_choice \<Longrightarrow>
     \<exists>opts ca. q_options q = Some opts \<and> length opts = 4
        \<and> q_correct_answer q = Some ca \<and> ca \<noteq> []"
  by (induction qs) (auto split: if_splits option.splits)

lemma missingTypes_empty:
  "length (missingTypes qs) = 0 \<Longrightarrow>
     multiple_choice \<in> q_type ` set qs \<and> short_answer \<in> q_type ` set qs
     \<and> application \<in> q_type ` set qs"
  by (auto simp: missingTypes_def requiredTypes_def split: if_splits)

lemma validateAndTransformResponse_shape:
  assumes "validateAndTransformResponse rt raw n w = (Inr qs, w')"
  shows "question_set_ok qs"
proof -
  from assms obtain qs0 where
        len: "\<not> (length qs0 < 5 \<or> 10 < length qs0)"
    and mt: "\<not> 0 < length (missingTypes qs0)"
    and mc: "checkMultipleChoice qs0 = None"
    and tr: "transformQuestions rt qs0 w = (qs, w')"
    by (auto simp: validateAndTransformResponse_def
             split: sum.splits option.splits if_splits prod.splits)
  from tr have sh: "length qs = length qs0" "map q_type qs = map q_type qs0"
    and mcq: "\<forall>q \<in> set qs. q_type q = multiple_choice \<longrightarrow>
           (\<exists>q0 \<in> set qs0. q_type q0 = multiple_choice \<and> q_options q = q_options q0
              \<and> q_correct_answer q = q_correct_answer q0)"
    by (auto dest!: transformQuestions_shape)
  from sh(2) have types: "q_type ` set qs = q_type ` set qs0"
    by (metis list.set_map)
  from mt have "length (missingTypes qs0) = 0" by simp
  from missingTypes_empty [OF this] types
  have t3: "multiple_choice \<in> q_type ` set qs \<and> short_answer \<in> q_type ` set qs
     \<and> application \<in> q_type ` set qs" by simp
  have "\<forall>q \<in> set qs. q_type q = multiple_choice \<longrightarrow>
            (\<exists>opts ca. q_options q = Some opts \<and> length opts = 4
               \<and> q_correct_answer q = Some ca \<and> ca \<noteq> [])"
  proof (intro ballI impI)
    fix q assume "q \<in> set qs" "q_type q = multiple_choice"
    with mcq obtain q0 where q0: "q0 \<in> set qs0" "q_type q0 = multiple_choice"
      "q_options q = q_options q0" "q_correct_answer q = q_correct_answer q0" by blast
    from checkMultipleChoice_None [OF mc q0(1) q0(2)] q0(3,4)
    show "\<exists>opts ca. q_options q = Some opts \<and> length opts = 4
               \<and> q_correct_answer q = Some ca \<and> ca \<noteq> []" by simp
  qed
  with len sh(1) t3 show ?thesis by (simp add: question_set_ok_def)
qed

lemma attemptGeneration_shape:
  "attemptGeneration rt topic n a w = (Inr qs, w') \<Longrightarrow> question_set_ok qs"
  by (auto simp: attemptGeneration_def
           split: sum.splits option.splits if_splits prod.splits llm_outcome.splits
           dest: validateAndTransformResponse_shape)

lemma generateExamWithRetry_loop_shape:
  "generateExamWithRetry_loop rt topic n a le w = (Inr qs, w') \<Longrightarrow> question_set_ok qs"
proof (induction rt topic n a le w rule: generateExamWithRetry_loop.induct)
  case (1 rt topic n a le w)
  show ?case
  proof (cases "a \<le> maxRetries")
    case False
    with "1.prems" show ?thesis
      by (simp add: generateExamWithRetry_loop.simps [of rt topic n a le w])
  next
    case True
    obtain x w1 where att: "attemptGeneration rt topic n a w = (x, w1)"
      by (cases "attemptGeneration rt topic n a w")
    show ?thesis
    proof (cases x)
      case (Inr qs1)
      with True att "1.prems" have "qs1 = qs"
        by (simp add: generateExamWithRetry_loop.simps [of rt topic n a le w])
      with att Inr show ?thesis by (auto dest: attemptGeneration_shape)
    next
      case (Inl e)
      from True att Inl "1.prems"
      have rec: "generateExamWithRetry_loop rt topic n (a + 1) (Some (categorizeError e))
                   (if a < maxRetries then delay (backoffMs ! (a - 1)) w1 else w1) = (Inr qs, w')"
        by (simp add: generateExamWithRetry_loop.simps [of rt topic n a le w])
      from "1.IH" [OF True att [symmetric] Inl rec] show ?thesis .
    qed
  qed
qed

text \<open>
  Claim C4, as amended. Every question set that \<^verbatim>\<open>generateExam\<close> returns has five to
  ten questions, at least one question of each of the three types, and on every multiple
  choice question exactly four options and a correct answer that is not empty. (The
  correct answer is not compared with the options.)
\<close>

theorem generateExam_question_set:
  assumes "generateExam rt topic n w = (Inr qs, w')"
  shows "5 \<le> length qs \<and> length qs \<le> 10
      \<and> multiple_choice \<in> q_type ` set qs \<and> short_answer \<in> q_type ` set qs
      \<and> application \<in> q_type ` set qs
      \<and> (\<forall>q \<in> set qs. q_type q = multiple_choice \<longrightarrow>
            (\<exists>opts ca. q_options q = Some opts \<and> length opts = 4
               \<and> q_correct_answer q = Some ca \<and> ca \<noteq> []))"
proof -
  from assms have "generateExamWithRetry_loop rt topic n 1 None w = (Inr qs, w')"
    by (simp add: generateExam_def generateExamWithRetry_def split: if_splits)
  then have "question_set_ok qs" by (rule generateExamWithRetry_loop_shape)
  then show ?thesis by (simp add: question_set_ok_def)
qed

theorem generateExam_question_set_witness:
  "generateExam rt_good ''Rust'' 7 world0 = (Inr seven_questions, world_after_one)
   \<and> length seven_questions = 7
   \<and> multiple_choice \<in> q_type ` set seven_questions
   \<and> short_answer \<in> q_type ` set seven_questions
   \<and> application \<in> q_type ` set seven_questions
   \<and> (\<exists>opts ca. q_options (mc_question ''uuid-0'') = Some opts \<and> length opts = 4
               \<and> q_correct_answer (mc_question ''uuid-0'') = Some ca \<and> ca \<noteq> [])"
proof -
  have run: "generateExam rt_good ''Rust'' 7 world0 = (Inr seven_questions, world_after_one)"
    by code_simp
  have len: "length seven_questions = 7" by (simp add: seven_questions_def)
  have mem: "mc_question ''uuid-0'' \<in> set seven_questions" by (simp add: seven_questions_def)
  have mc: "q_type (mc_question ''uuid-0'') = multiple_choice" by (simp add: mc_question_def)
  from generateExam_question_set [OF run] run len mem mc show ?thesis by blast
qed

text \<open>
  The claim as stated also asks that the correct answer is one of the options. The
  answer written as the prompt asks for it, the letter \<^verbatim>\<open>A\<close> beside four lettered
  options, is accepted, and the letter is none of the options.
\<close>

theorem generateExam_correct_answer_counterexample:
  "generateExam rt_good ''Rust'' 7 world0 = (Inr seven_questions, world_after_one)
   \<and> hd seven_questions = mc_question ''uuid-0''
   \<and> q_type (mc_question ''uuid-0'') = multiple_choice
   \<and> q_options (mc_question ''uuid-0'') = Some mc_options
   \<and> q_correct_answer (mc_question ''uuid-0'') = Some ''A''
   \<and> ''A'' \<notin> set mc_options"
  by code_simp

subsection \<open>The action that generates an exam\<close>

lemma generateExam_action_failure_keeps_db:
  "generateExam_action rt userId cid now db w = (Failure errs, db', w') \<Longrightarrow> db' = db"
  by (auto simp: generateExam_action_def failure_def insert_exam_def Let_def
           split: option.splits if_splits sum.splits prod.splits)

text \<open>
  Claim C5, as amended. The action does not consult the exams of the commitment. For
  a signed-in caller who owns the commitment, while the commitment is active and its
  deadline has not passed, a successful generation always appends one new pending exam
  to the exams table, whatever that table holds. A request that fails leaves the
  database as it was, and a request succeeds only for the owner of an active
  commitment before its deadline.
\<close>

theorem generateExam_action_gate:
  "(uid \<noteq> [] \<longrightarrow> cid \<noteq> [] \<longrightarrow>
      select_single (\<lambda>c. c_id c = cid) (commitments db) = Some c \<longrightarrow>
      c_user_id c = uid \<longrightarrow> c_status c = active \<longrightarrow> \<not> c_deadline c < now \<longrightarrow>
      generateExam rt (c_topic c) 7 w = (Inr qs, w1) \<longrightarrow>
        (\<exists>exam. generateExam_action rt (Some uid) cid now db w =
                  (Success exam, db\<lparr>exams := exams db @ [exam], id_seq := id_seq db + 1\<rparr>, w1)
           \<and> e_commitment_id exam = cid \<and> e_status exam = pending \<and> e_questions exam = qs))
   \<and> (generateExam_action rt userId cid now db w = (Failure errs, db', w') \<longrightarrow> db' = db)
   \<and> (generateExam_action rt userId cid now db w = (Success exam', db', w') \<longrightarrow>
        (\<exists>c'. select_single (\<lambda>c. c_id c = cid) (commitments db) = Some c'
           \<and> userId = Some (c_user_id c') \<and> c_status c' = active \<and> \<not> c_deadline c' < now))"
proof (intro conjI impI)
  assume "uid \<noteq> []" "cid \<noteq> []" "select_single (\<lambda>c. c_id c = cid) (commitments db) = Some c"
    "c_user_id c = uid" "c_status c = active" "\<not> c_deadline c < now"
    "generateExam rt (c_topic c) 7 w = (Inr qs, w1)"
  then show "\<exists>exam. generateExam_action rt (Some uid) cid now db w =
                  (Success exam, db\<lparr>exams := exams db @ [exam], id_seq := id_seq db + 1\<rparr>, w1)
           \<and> e_commitment_id exam = cid \<and> e_status exam = pending \<and> e_questions exam = qs"
    by (simp add: generateExam_action_def insert_exam_def Let_def)
next
  assume "generateExam_action rt userId cid now db w = (Failure errs, db', w')"
  then show "db' = db" by (rule generateExam_action_failure_keeps_db)
next
  assume "generateExam_action rt userId cid now db w = (Success exam', db', w')"
  then show "\<exists>c'. select_single (\<lambda>c. c_id c = cid) (commitments db) = Some c'
           \<and> userId = Some (c_user_id c') \<and> c_status c' = active \<and> \<not> c_deadline c' < now"
    by (auto simp: generateExam_action_def failure_def
             split: option.splits if_splits sum.splits prod.splits)
qed

text \<open>
  The claim as stated fails: the commitment has a pending exam, and the request is
  accepted and stores a second pending exam for it.
\<close>

theorem generateExam_action_second_exam_counterexample:
  "generateExam_action rt_good (Some ''u1'') ''c1'' 500 db_pending world0 =
     (Success second_exam, db_pending\<lparr>exams := [pending_exam, second_exam], id_seq := 2\<rparr>,
      world_after_one)
   \<and> e_commitment_id pending_exam = ''c1'' \<and> e_status pending_exam = pending
   \<and> e_commitment_id second_exam = ''c1'' \<and> e_status second_exam = pending
   \<and> pending_exam \<in> set (exams db_pending)"
  by code_simp

theorem generateExam_action_gate_witness:
  "select_single (\<lambda>c. c_id c = ''c1'') (commitments db_pending) = Some commitment1
   \<and> c_user_id commitment1 = ''u1'' \<and> c_status commitment1 = active
   \<and> \<not> c_deadline commitment1 < 500
   \<and> generateExam rt_good (c_topic commitment1) 7 world0 = (Inr seven_questions, world_after_one)
   \<and> (\<exists>exam. generateExam_action rt_good (Some ''u1'') ''c1'' 500 db_pending world0 =
                  (Success exam, db_pending\<lparr>exams := exams db_pending @ [exam],
                                            id_seq := id_seq db_pending + 1\<rparr>, world_after_one)
           \<and> e_commitment_id exam = ''c1'' \<and> e_status exam = pending
           \<and> e_questions exam = seven_questions)
   \<and> generateExam_action rt_good (Some ''u2'') ''c1'' 500 db_pending world0 =
        (Failure [\<lparr>ve_field = ''auth'', ve_message = ''Access denied'', ve_code = ''forbidden''\<rparr>],
         db_pending, world0)"
proof -
  have g: "generateExam rt_good (c_topic commitment1) 7 world0 = (Inr seven_questions, world_after_one)"
    by code_simp
  have s: "select_single (\<lambda>c. c_id c = ''c1'') (commitments db_pending) = Some commitment1"
    by code_simp
  have c: "c_user_id commitment1 = ''u1''" "c_status commitment1 = active"
    "\<not> c_deadline commitment1 < 500"
    by (simp_all add: commitment1_def)
  have f: "generateExam_action rt_good (Some ''u2'') ''c1'' 500 db_pending world0 =
     (Failure [\<lparr>ve_field = ''auth'', ve_message = ''Access denied'', ve_code = ''forbidden''\<rparr>],
      db_pending, world0)"
    by code_simp
  note gate = generateExam_action_gate [where uid = "''u1''" and cid = "''c1''"
      and db = db_pending and c = commitment1 and now = 500 and rt = rt_good and w = world0
      and qs = seven_questions and ?w1.0 = world_after_one, THEN conjunct1, rule_format]
  have "\<exists>exam. generateExam_action rt_good (Some ''u1'') ''c1'' 500 db_pending world0 =
                  (Success exam, db_pending\<lparr>exams := exams db_pending @ [exam],
                                            id_seq := id_seq db_pending + 1\<rparr>, world_after_one)
           \<and> e_commitment_id exam = ''c1'' \<and> e_status exam = pending
           \<and> e_questions exam = seven_questions"
    by (rule gate) (use g s c in simp_all)
  with g s c f show ?thesis by simp
qed

subsection \<open>Exam grading: the overall score\<close>




lemma Math_round_div:
  assumes "0 < n"
  shows "Math_round (of_int t / of_nat n) = (2 * t + int n) div (2 * int n)"
proof -
  have "(of_int t / of_nat n + 1 / 2 :: rat) = of_int (2 * t + int n) / of_int (2 * int n)"
    using assms by (simp add: field_simps)
  then show ?thesis
    by (simp only: Math_round_def floor_divide_of_int_eq)
qed








subsection \<open>Exam grading: answers that are not there\<close>

lemma trim_empty_iff: "trim s = [] \<longleftrightarrow> list_all is_space s"
proof -
  have "trim s = [] \<longleftrightarrow> (\<forall>c \<in> set (dropWhile is_space s). is_space c)"
    by (simp add: trim_def)
  also have "\<dots> \<longleftrightarrow> dropWhile is_space s = []"
  proof
    assume all: "\<forall>c \<in> set (dropWhile is_space s). is_space c"
    show "dropWhile is_space s = []"
    proof (cases "dropWhile is_space s")
      case Nil
      then show ?thesis .
    next
      case (Cons c cs)
      then have "\<not> is_space c" using hd_dropWhile [of is_space s] by simp
      moreover from Cons all have "is_space c" by simp
      ultimately show ?thesis by simp
    qed
  qed (auto dest: set_dropWhileD)
  also have "\<dots> \<longleftrightarrow> list_all is_space s"
    by (simp add: list_all_iff)
  finally show ?thesis .
qed

lemma answerMap_foldl_None:
  "foldl (\<lambda>m answer. m(a_question_id answer \<mapsto> answer)) m0 answers k = None
     \<longleftrightarrow> m0 k = None \<and> k \<notin> a_question_id ` set answers"
  by (induction answers arbitrary: m0) auto

lemma answerMap_None: "answerMap answers k = None \<longleftrightarrow> k \<notin> a_question_id ` set answers"
  by (simp add: answerMap_def answerMap_foldl_None)

lemma gradeQuestion_unanswered:
  "unanswered answers question \<Longrightarrow>
     gradeQuestion rt (answerMap answers) question w = (Inr no_answer, w)"
  by (auto simp: unanswered_def gradeQuestion_def Let_def trim_empty_iff split: option.splits)

lemma gradeQuestions_prefix:
  "gradeQuestions rt m qs acc w = (Inr rs, w') \<Longrightarrow> take (length acc) rs = acc"
proof (induction qs arbitrary: acc w)
  case Nil
  then show ?case by simp
next
  case (Cons q qs)
  from Cons.prems obtain g w1 where
    "gradeQuestions rt m qs (acc @ [g]) w1 = (Inr rs, w')"
    by (auto split: sum.splits prod.splits)
  from Cons.IH [OF this] have "take (Suc (length acc)) rs = acc @ [g]" by simp
  then have "take (length acc) (take (Suc (length acc)) rs) = take (length acc) (acc @ [g])"
    by simp
  then show ?case by simp
qed

lemma gradeQuestions_unanswered_nth:
  "gradeQuestions rt (answerMap answers) qs acc w = (Inr rs, w') \<Longrightarrow> i < length qs \<Longrightarrow>
     unanswered answers (qs ! i) \<Longrightarrow> rs ! (length acc + i) = no_answer"
proof (induction qs arbitrary: acc w i)
  case Nil
  then show ?case by simp
next
  case (Cons q qs)
  from Cons.prems(1) obtain g w1 where
    g: "gradeQuestion rt (answerMap answers) q w = (Inr g, w1)"
    and rest: "gradeQuestions rt (answerMap answers) qs (acc @ [g]) w1 = (Inr rs, w')"
    by (auto split: sum.splits prod.splits)
  show ?case
  proof (cases i)
    case 0
    with Cons.prems(3) have "unanswered answers q" by simp
    from gradeQuestion_unanswered [OF this, of rt w] g have "g = no_answer" by simp
    moreover from gradeQuestions_prefix [OF rest]
    have "take (length (acc @ [g])) rs ! length acc = (acc @ [g]) ! length acc" by simp
    then have "rs ! length acc = g" by simp
    ultimately show ?thesis using 0 by simp
  next
    case (Suc j)
    with Cons.prems have "j < length qs" "unanswered answers (qs ! j)" by simp_all
    from Cons.IH [OF rest this] Suc show ?thesis by simp
  qed
qed

lemma attemptGrading_frame:
  "attemptGrading rt q a n w = (r, w') \<Longrightarrow> llm_calls w' \<le> llm_calls w + 1"
  by (auto simp: attemptGrading_def getNextKey_grader_def llm_request_def
           split: sum.splits option.splits if_splits prod.splits llm_outcome.splits)

lemma gradeAnswerWithRetry_loop_calls:
  "gradeAnswerWithRetry_loop rt q ua a le w = (r, w') \<Longrightarrow>
     llm_calls w' \<le> llm_calls w + (maxRetries + 1 - a)"
proof (induction rt q ua a le w arbitrary: r w' rule: gradeAnswerWithRetry_loop.induct)
  case (1 rt q ua a le w)
  show ?case
  proof (cases "a \<le> maxRetries")
    case False
    with "1.prems" show ?thesis
      by (simp add: gradeAnswerWithRetry_loop.simps [of rt q ua a le w])
  next
    case True
    obtain x w1 where att: "attemptGrading rt q ua a w = (x, w1)"
      by (cases "attemptGrading rt q ua a w")
    then have fr: "llm_calls w1 \<le> llm_calls w + 1" by (rule attemptGrading_frame)
    show ?thesis
    proof (cases x)
      case (Inr g)
      with True att "1.prems" fr show ?thesis
        by (simp add: gradeAnswerWithRetry_loop.simps [of rt q ua a le w])
    next
      case (Inl e)
      let ?w2 = "if a < maxRetries then delay (backoffMs ! (a - 1)) w1 else w1"
      from True att Inl "1.prems"
      have rec: "gradeAnswerWithRetry_loop rt q ua (a + 1) (Some (categorizeGradingError e)) ?w2
                   = (r, w')"
        by (simp add: gradeAnswerWithRetry_loop.simps [of rt q ua a le w])
      from "1.IH" [OF True att [symmetric] Inl rec]
      have "llm_calls w' \<le> llm_calls ?w2 + (maxRetries + 1 - (a + 1))" .
      moreover have "llm_calls ?w2 = llm_calls w1" by (simp add: delay_def)
      ultimately show ?thesis using fr True by simp
    qed
  qed
qed

lemma gradeQuestion_calls:
  assumes "gradeQuestion rt (answerMap answers) q w = (r, w')"
  shows "llm_calls w' \<le> llm_calls w + (if unanswered answers q then 0 else 3)"
proof (cases "unanswered answers q")
  case True
  from gradeQuestion_unanswered [OF this, of rt w] assms True show ?thesis by simp
next
  case False
  from assms have "w' = w \<or> (\<exists>ua. gradeAnswerWithRetry_loop rt q ua 1 None w = (r, w'))"
    by (auto simp: gradeQuestion_def gradeAnswerWithRetry_def Let_def split: if_splits)
  then show ?thesis
    using False by (auto dest!: gradeAnswerWithRetry_loop_calls simp: maxRetries_def)
qed

lemma gradeQuestions_calls:
  "gradeQuestions rt (answerMap answers) qs acc w = (r, w') \<Longrightarrow>
     llm_calls w' \<le> llm_calls w + 3 * length (filter (\<lambda>q. \<not> unanswered answers q) qs)"
proof (induction qs arbitrary: acc w)
  case Nil
  then show ?case by simp
next
  case (Cons q qs)
  obtain x w1 where g: "gradeQuestion rt (answerMap answers) q w = (x, w1)"
    by (cases "gradeQuestion rt (answerMap answers) q w")
  note c = gradeQuestion_calls [OF g]
  show ?case
  proof (cases x)
    case (Inl e)
    with g Cons.prems have "w' = w1" by simp
    with c show ?thesis by (simp split: if_splits)
  next
    case (Inr gr)
    with g Cons.prems have "gradeQuestions rt (answerMap answers) qs (acc @ [gr]) w1 = (r, w')"
      by simp
    from Cons.IH [OF this] c show ?thesis by (simp split: if_splits)
  qed
qed

text \<open>
  Claim C9, as amended. An answer of white space only (the empty answer included) to a
  question whose text is not empty gets from \<^verbatim>\<open>gradeAnswer\<close> the score 0 and the
  feedback \<^verbatim>\<open>No answer provided.\<close>, and the state is unchanged: no request is sent to the
  model. In the grading of an exam a question is unanswered when no answer has its
  identifier or when its answer is such white space; an unanswered question gets the same
  result without a request, it stands at the question's place in the results, and the
  whole grading sends at most three requests for each question that is answered.
\<close>

theorem blank_answer_scores_zero:
  "(list_all is_space userAnswer \<longrightarrow> q_question question \<noteq> [] \<longrightarrow>
      gradeAnswer rt question userAnswer w =
        (Inr \<lparr>gr_score = 0, gr_feedback = ''No answer provided.''\<rparr>, w))
   \<and> (q_id question \<notin> a_question_id ` set answers \<longrightarrow> unanswered answers question)
   \<and> (answerMap answers (q_id question) = Some answer \<longrightarrow>
        list_all is_space (a_user_answer answer) \<longrightarrow> unanswered answers question)
   \<and> (unanswered answers question \<longrightarrow>
        gradeQuestion rt (answerMap answers) question w =
          (Inr \<lparr>gr_score = 0, gr_feedback = ''No answer provided.''\<rparr>, w))
   \<and> (gradeExam rt exam answers w = (Inr r, w') \<longrightarrow>
        (i < length (e_questions exam) \<longrightarrow> unanswered answers (e_questions exam ! i) \<longrightarrow>
           questionResults r ! i = \<lparr>gr_score = 0, gr_feedback = ''No answer provided.''\<rparr>)
        \<and> llm_calls w' \<le> llm_calls w
             + 3 * length (filter (\<lambda>q. \<not> unanswered answers q) (e_questions exam)))"
proof (intro conjI impI)
  assume "list_all is_space userAnswer" "q_question question \<noteq> []"
  then show "gradeAnswer rt question userAnswer w =
        (Inr \<lparr>gr_score = 0, gr_feedback = ''No answer provided.''\<rparr>, w)"
    by (simp add: gradeAnswer_def no_answer_def trim_empty_iff)
next
  assume "q_id question \<notin> a_question_id ` set answers"
  then show "unanswered answers question"
    by (simp add: unanswered_def answerMap_None [symmetric])
next
  assume "answerMap answers (q_id question) = Some answer"
    "list_all is_space (a_user_answer answer)"
  then show "unanswered answers question" by (simp add: unanswered_def)
next
  assume "unanswered answers question"
  from gradeQuestion_unanswered [OF this]
  show "gradeQuestion rt (answerMap answers) question w =
          (Inr \<lparr>gr_score = 0, gr_feedback = ''No answer provided.''\<rparr>, w)"
    by (simp add: no_answer_def)
next
  assume run: "gradeExam rt exam answers w = (Inr r, w')"
     and i: "i < length (e_questions exam)" "unanswered answers (e_questions exam ! i)"
  from run obtain rs where
    gq: "gradeQuestions rt (answerMap answers) (e_questions exam) [] w = (Inr rs, w')"
    and r: "questionResults r = rs"
    by (auto simp: gradeExam_def gradeExamQuestions_def Let_def
             split: if_splits prod.splits sum.splits)
  from gradeQuestions_unanswered_nth [OF gq i] r
  show "questionResults r ! i = \<lparr>gr_score = 0, gr_feedback = ''No answer provided.''\<rparr>"
    by (simp add: no_answer_def)
next
  assume run: "gradeExam rt exam answers w = (Inr r, w')"
  then obtain rs where
    gq: "gradeQuestions rt (answerMap answers) (e_questions exam) [] w = (Inr rs, w')"
    by (auto simp: gradeExam_def gradeExamQuestions_def Let_def
             split: if_splits prod.splits sum.splits)
  from gradeQuestions_calls [OF gq]
  show "llm_calls w' \<le> llm_calls w
             + 3 * length (filter (\<lambda>q. \<not> unanswered answers q) (e_questions exam))" .
qed

text \<open>
  The claim as stated, for every answer that is empty, fails on \<^verbatim>\<open>gradeAnswer\<close>: the
  question is validated first, and the empty answer to a question without text throws.
\<close>

theorem gradeAnswer_empty_question_counterexample:
  "gradeAnswer rt_good ((open_question ''q2'' short_answer)\<lparr>q_question := []\<rparr>) [] world0 =
     (Inl (GradingException
        \<lparr>err_type = INVALID_SCORE, err_message = ''Question cannot be empty''\<rparr> 0), world0)"
  by code_simp

theorem blank_answer_scores_zero_witness:
  "list_all is_space '' '' \<and> q_question (mc_question ''q1'') \<noteq> []
   \<and> gradeAnswer rt_good (mc_question ''q1'') '' '' world0 =
        (Inr \<lparr>gr_score = 0, gr_feedback = ''No answer provided.''\<rparr>, world0)
   \<and> unanswered [answer1, answer2_blank] (open_question ''q2'' short_answer)
   \<and> unanswered [answer1] (open_question ''q2'' short_answer)
   \<and> gradeExam (rt_grader 100) two_question_exam [answer1, answer2_blank] world0 =
        (Inr \<lparr>overallScore = 50, passed = False,
              questionResults = [\<lparr>gr_score = 100, gr_feedback = ''Graded.''\<rparr>,
                                 \<lparr>gr_score = 0, gr_feedback = ''No answer provided.''\<rparr>]\<rparr>,
         world_graded)
   \<and> questionResults \<lparr>overallScore = 50, passed = False,
              questionResults = [\<lparr>gr_score = 100, gr_feedback = ''Graded.''\<rparr>,
                                 \<lparr>gr_score = 0, gr_feedback = ''No answer provided.''\<rparr>]\<rparr> ! 1
        = \<lparr>gr_score = 0, gr_feedback = ''No answer provided.''\<rparr>"
proof -
  have sp: "list_all is_space '' ''" by (simp add: is_space_def)
  have qq: "q_question (mc_question ''q1'') \<noteq> []" by (simp add: mc_question_def)
  have am: "answerMap [answer1, answer2_blank] (q_id (open_question ''q2'' short_answer)) = Some answer2_blank"
    by (simp add: answerMap_def open_question_def answer1_def answer2_blank_def)
  have sp2: "list_all is_space (a_user_answer answer2_blank)"
    by (simp add: answer2_blank_def is_space_def)
  have nm: "q_id (open_question ''q2'' short_answer) \<notin> a_question_id ` set [answer1]"
    by (simp add: open_question_def answer1_def)
  have run: "gradeExam (rt_grader 100) two_question_exam [answer1, answer2_blank] world0 =
        (Inr \<lparr>overallScore = 50, passed = False,
              questionResults = [\<lparr>gr_score = 100, gr_feedback = ''Graded.''\<rparr>,
                                 \<lparr>gr_score = 0, gr_feedback = ''No answer provided.''\<rparr>]\<rparr>,
         world_graded)"
    by code_simp
  have i: "1 < length (e_questions two_question_exam)"
    "e_questions two_question_exam ! 1 = open_question ''q2'' short_answer"
    by (simp_all add: two_question_exam_def)
  note t = blank_answer_scores_zero [where userAnswer = "'' ''" and question = "mc_question ''q1''"
      and rt = rt_good and w = world0]
  note u = blank_answer_scores_zero [where question = "open_question ''q2'' short_answer"
      and answers = "[answer1, answer2_blank]" and answer = answer2_blank
      and rt = "rt_grader 100" and exam = two_question_exam and w = world0 and i = 1]
  note v = blank_answer_scores_zero [where question = "open_question ''q2'' short_answer"
      and answers = "[answer1]"]
  from t sp qq have g: "gradeAnswer rt_good (mc_question ''q1'') '' '' world0 =
        (Inr \<lparr>gr_score = 0, gr_feedback = ''No answer provided.''\<rparr>, world0)" by blast
  from u am sp2 have un: "unanswered [answer1, answer2_blank] (open_question ''q2'' short_answer)"
    by blast
  from v nm have un1: "unanswered [answer1] (open_question ''q2'' short_answer)" by blast
  from u run i un have "questionResults \<lparr>overallScore = 50, passed = False,
              questionResults = [\<lparr>gr_score = 100, gr_feedback = ''Graded.''\<rparr>,
                                 \<lparr>gr_score = 0, gr_feedback = ''No answer provided.''\<rparr>]\<rparr> ! 1
        = \<lparr>gr_score = 0, gr_feedback = ''No answer provided.''\<rparr>" by simp
  with sp qq g un un1 run show ?thesis by simp
qed

subsection \<open>The grading action and the stake\<close>

text \<open>The grading action never writes the commitments table.\<close>

lemma gradeExam_action_commitments:
  "gradeExam_action rt userId examId now db w = (res, db', w') \<Longrightarrow>
     commitments db' = commitments db"
  by (auto simp: gradeExam_action_def failure_def Let_def
           split: option.splits if_splits prod.splits sum.splits exn.splits)

text \<open>
  Claim C1. The claim: a successful grading writes the exam, writes every answer and
  invokes \<^verbatim>\<open>resolveStake\<close> with the outcome, so that no graded exam is seen beside a
  stake in its state from before the grading. The action writes the exam and the
  answer, and it does not invoke the resolver: after the passed exam is graded the
  commitment is still active with its stake at risk, where \<^verbatim>\<open>resolveStake\<close> would
  have stored completed and saved.
\<close>

theorem gradeExam_action_leaves_stake_at_risk:
  "gradeExam_action (rt_grader 100) (Some ''u1'') ''e1'' 500 db_submitted world0 =
     (Success \<lparr>overallScore = 100, passed = True,
               questionResults = [\<lparr>gr_score = 100, gr_feedback = ''Graded.''\<rparr>]\<rparr>,
      \<lparr>commitments = [commitment1], exams = [graded_exam], exam_answers = [graded_answer1],
       id_seq = 2\<rparr>, world_graded)
   \<and> e_status graded_exam = graded \<and> e_passed graded_exam = Some True
   \<and> c_status commitment1 = active \<and> c_stake_status commitment1 = at_risk
   \<and> c_retry_used commitment1 = False
   \<and> resolveStake 500 ''c1'' True [commitment1] =
       (Inr \<lparr>r_commitment = commitment1_completed, r_previousStatus = active,
             r_previousStakeStatus = at_risk, r_action = action_saved,
             r_message = ''Congratulations! You passed and saved your stake.''\<rparr>,
        [commitment1_completed])"
  by code_simp

subsection \<open>Resubmitting an answer\<close>

lemma distinct_filter_key:
  "distinct (map f xs) \<Longrightarrow> x \<in> set xs \<Longrightarrow> filter (\<lambda>a. f a = f x) xs = [x]"
proof (induction xs)
  case Nil
  then show ?case by simp
next
  case (Cons y ys)
  show ?case
  proof (cases "y = x")
    case True
    with Cons.prems(1) have "f x \<notin> f ` set ys" by simp
    then have "\<forall>a \<in> set ys. f a \<noteq> f x" by (metis imageI)
    then have "filter (\<lambda>a. f a = f x) ys = []" by (simp add: filter_empty_conv)
    with True show ?thesis by simp
  next
    case False
    with Cons.prems have "x \<in> set ys" "f y \<noteq> f x" by auto
    with Cons show ?thesis by simp
  qed
qed

text \<open>
  Claim C10, as amended. When the exam is in progress and the pair of exam and question
  has exactly one answer, resubmitting an answer that is not blank keeps that one row
  for the pair and the number of rows of the table, overwrites the stored text with the
  trimmed new text, and leaves score and feedback of the row as they were. (Primary
  keys are distinct.)
\<close>

theorem submitAnswer_resubmission:
  assumes "uid \<noteq> []" and "trim answer \<noteq> []"
      and "select_exam_with_owner examId db = Some (exam, uid)"
      and "e_status exam = in_progress"
      and "list_ex (\<lambda>q. q_id q = questionId) (e_questions exam)"
      and "select_single (\<lambda>a. a_exam_id a = examId \<and> a_question_id a = questionId)
             (exam_answers db) = Some old"
      and "distinct (map a_id (exam_answers db))"
  shows "\<exists>db'. submitAnswer_action rt (Some uid) examId questionId answer db =
             (Success (old\<lparr>a_user_answer := trim answer\<rparr>), db')
      \<and> db' = db\<lparr>exam_answers :=
                   map (\<lambda>a. if a_id a = a_id old then a\<lparr>a_user_answer := trim answer\<rparr> else a)
                     (exam_answers db)\<rparr>
      \<and> select_single (\<lambda>a. a_exam_id a = examId \<and> a_question_id a = questionId)
           (exam_answers db') = Some (old\<lparr>a_user_answer := trim answer\<rparr>)
      \<and> length (exam_answers db') = length (exam_answers db)
      \<and> a_score (old\<lparr>a_user_answer := trim answer\<rparr>) = a_score old
      \<and> a_feedback (old\<lparr>a_user_answer := trim answer\<rparr>) = a_feedback old"
proof -
  let ?pair = "\<lambda>a. a_exam_id a = examId \<and> a_question_id a = questionId"
  let ?upd = "\<lambda>a. a\<lparr>a_user_answer := trim answer\<rparr>"
  from assms(6) have pair: "filter ?pair (exam_answers db) = [old]"
    by (rule select_single_SomeD)
  then have "old \<in> set (filter ?pair (exam_answers db))" by simp
  then have mem: "old \<in> set (exam_answers db)" by simp
  from distinct_filter_key [OF assms(7) mem]
  have byid: "filter (\<lambda>a. a_id a = a_id old) (exam_answers db) = [old]" .
  have run: "submitAnswer_action rt (Some uid) examId questionId answer db =
      (Success (?upd old),
       db\<lparr>exam_answers := update_where (\<lambda>a. a_id a = a_id old) ?upd (exam_answers db)\<rparr>)"
    using assms byid
    by (simp add: submitAnswer_action_def update_single_def)
  have "filter ?pair (update_where (\<lambda>a. a_id a = a_id old) ?upd (exam_answers db))
          = map (\<lambda>a. if a_id a = a_id old then ?upd a else a) (filter ?pair (exam_answers db))"
    by (induction "exam_answers db") (auto simp: update_where_def filter_map o_def)
  with pair have after: "select_single ?pair
      (update_where (\<lambda>a. a_id a = a_id old) ?upd (exam_answers db)) = Some (?upd old)"
    by (simp add: select_single_def)
  from run after show ?thesis
    by (simp add: update_where_def)
qed

text \<open>
  The claim as stated also asks that a prior score and feedback are cleared. The update
  sets the answer text only: a row that carries a score keeps it.
\<close>

theorem submitAnswer_keeps_score_counterexample:
  "a_score scored_answer1 = Some 80 \<and> a_feedback scored_answer1 = Some ''Good.''
   \<and> submitAnswer_action rt_good (Some ''u1'') ''e1'' ''q1'' '' B '' db_in_progress =
       (Success (scored_answer1\<lparr>a_user_answer := ''B''\<rparr>),
        db_in_progress\<lparr>exam_answers := [scored_answer1\<lparr>a_user_answer := ''B''\<rparr>]\<rparr>)
   \<and> a_score (scored_answer1\<lparr>a_user_answer := ''B''\<rparr>) = Some 80
   \<and> a_feedback (scored_answer1\<lparr>a_user_answer := ''B''\<rparr>) = Some ''Good.''"
  by code_simp

theorem submitAnswer_resubmission_witness:
  "''u1'' \<noteq> [] \<and> trim '' B '' = ''B''
   \<and> select_exam_with_owner ''e1'' db_in_progress = Some (in_progress_exam, ''u1'')
   \<and> e_status in_progress_exam = in_progress
   \<and> list_ex (\<lambda>q. q_id q = ''q1'') (e_questions in_progress_exam)
   \<and> select_single (\<lambda>a. a_exam_id a = ''e1'' \<and> a_question_id a = ''q1'')
        (exam_answers db_in_progress) = Some scored_answer1
   \<and> distinct (map a_id (exam_answers db_in_progress))
   \<and> submitAnswer_action rt_good (Some ''u1'') ''e1'' ''q1'' '' B '' db_in_progress =
       (Success (scored_answer1\<lparr>a_user_answer := ''B''\<rparr>),
        db_in_progress\<lparr>exam_answers :=
          map (\<lambda>a. if a_id a = a_id scored_answer1 then a\<lparr>a_user_answer := ''B''\<rparr> else a)
            (exam_answers db_in_progress)\<rparr>)"
proof -
  have u: "''u1'' \<noteq> []" by simp
  have t: "trim '' B '' = ''B''" by code_simp
  then have t': "trim '' B '' \<noteq> []" by simp
  have e: "select_exam_with_owner ''e1'' db_in_progress = Some (in_progress_exam, ''u1'')"
    by code_simp
  have st: "e_status in_progress_exam = in_progress" by (simp add: in_progress_exam_def)
  have q: "list_ex (\<lambda>q. q_id q = ''q1'') (e_questions in_progress_exam)"
    by (simp add: in_progress_exam_def submitted_exam_def mc_question_def)
  have a: "select_single (\<lambda>a. a_exam_id a = ''e1'' \<and> a_question_id a = ''q1'')
        (exam_answers db_in_progress) = Some scored_answer1"
    by (simp add: select_single_def db_in_progress_def scored_answer1_def answer1_def)
  have d: "distinct (map a_id (exam_answers db_in_progress))"
    by (simp add: db_in_progress_def)
  from submitAnswer_resubmission [OF u t' e st q a d, of rt_good] t
  have "submitAnswer_action rt_good (Some ''u1'') ''e1'' ''q1'' '' B '' db_in_progress =
       (Success (scored_answer1\<lparr>a_user_answer := ''B''\<rparr>),
        db_in_progress\<lparr>exam_answers :=
          map (\<lambda>a. if a_id a = a_id scored_answer1 then a\<lparr>a_user_answer := ''B''\<rparr> else a)
            (exam_answers db_in_progress)\<rparr>)"
    by auto
  with u t e st q a d show ?thesis by simp
qed

end
